theory Spec2Isabelle
  imports Complex_Main "HOL-Library.Sublist"
begin

section \<open>JavaScript values\<close>

text \<open>
  The values the handlers work on are the results of \<^verbatim>\<open>JSON.parse\<close> and the objects the
  code builds from them. A number is the value of the parsed double. A string is a list of
  UTF-16 code units, each a natural number; \<open>length\<close> counts them as \<^verbatim>\<open>.length\<close> does. An array
  carries its elements and the named properties assigned to it; an object is the list of
  its own properties in insertion order.
\<close>

type_synonym jstring = "nat list"

text \<open>A string literal of the source.\<close>

definition js :: "string \<Rightarrow> jstring" where
  "js s = map of_char s"

datatype jv =
    JUndefined
  | JNull
  | JBool bool
  | JNum rat
  | JStr jstring
  | JArr "jv list" "(jstring \<times> jv) list"
  | JObj "(jstring \<times> jv) list"

text \<open>\<^verbatim>\<open>!!v\<close>\<close>

fun truthy :: "jv \<Rightarrow> bool" where
  "truthy JUndefined = False"
| "truthy JNull = False"
| "truthy (JBool b) = b"
| "truthy (JNum r) = (r \<noteq> 0)"
| "truthy (JStr s) = (s \<noteq> [])"
| "truthy (JArr xs ps) = True"
| "truthy (JObj ps) = True"

text \<open>\<^verbatim>\<open>v === null || v === undefined\<close>: reading a property of such a value throws.\<close>

fun nullish :: "jv \<Rightarrow> bool" where
  "nullish JUndefined = True"
| "nullish JNull = True"
| "nullish v = False"

fun typeof :: "jv \<Rightarrow> string" where
  "typeof JUndefined = ''undefined''"
| "typeof JNull = ''object''"
| "typeof (JBool b) = ''boolean''"
| "typeof (JNum r) = ''number''"
| "typeof (JStr s) = ''string''"
| "typeof (JArr xs ps) = ''object''"
| "typeof (JObj ps) = ''object''"

fun isArray :: "jv \<Rightarrow> bool" where
  "isArray (JArr xs ps) = True"
| "isArray v = False"

fun elements :: "jv \<Rightarrow> jv list" where
  "elements (JArr xs ps) = xs"
| "elements v = []"

fun own_props :: "jv \<Rightarrow> (jstring \<times> jv) list" where
  "own_props (JObj ps) = ps"
| "own_props (JArr xs ps) = ps"
| "own_props v = []"

text \<open>
  \<^verbatim>\<open>v.k\<close> on a value that is neither null nor undefined, for the property names the
  source reads (none of them is inherited from a prototype): the own property, or
  undefined.
\<close>

definition get_prop :: "jv \<Rightarrow> jstring \<Rightarrow> jv" where
  "get_prop v k = (case map_of (own_props v) k of Some x \<Rightarrow> x | None \<Rightarrow> JUndefined)"

text \<open>An assignment \<^verbatim>\<open>o.k = x\<close> keeps the position of an existing key and appends a new one.\<close>

fun assign :: "(jstring \<times> jv) list \<Rightarrow> jstring \<Rightarrow> jv \<Rightarrow> (jstring \<times> jv) list" where
  "assign [] k x = [(k, x)]"
| "assign ((k', y) # ps) k x = (if k' = k then (k, x) # ps else (k', y) # assign ps k x)"

text \<open>\<^verbatim>\<open>v[0]\<close> on a value that is neither null nor undefined.\<close>

fun first_element :: "jv \<Rightarrow> jv" where
  "first_element (JArr (x # xs) ps) = x"
| "first_element (JStr (c # cs)) = JStr [c]"
| "first_element v = get_prop v (js ''0'')"

text \<open>\<^verbatim>\<open>v.length\<close> on a value that is neither null nor undefined.\<close>

fun js_length :: "jv \<Rightarrow> jv" where
  "js_length (JStr s) = JNum (of_nat (length s))"
| "js_length (JArr xs ps) = JNum (of_nat (length xs))"
| "js_length v = get_prop v (js ''length'')"

section \<open>Strings\<close>

text \<open>\<^verbatim>\<open>s.includes(p)\<close>\<close>

fun str_includes :: "jstring \<Rightarrow> jstring \<Rightarrow> bool" where
  "str_includes [] p = (p = [])"
| "str_includes (c # cs) p = (prefix p (c # cs) \<or> str_includes cs p)"

text \<open>The code units of white space and line terminators: what \<^verbatim>\<open>trim\<close> strips and the
  class \<^verbatim>\<open>\s\<close> matches.\<close>

definition is_space :: "nat \<Rightarrow> bool" where
  "is_space c = (c \<in> {9, 10, 11, 12, 13, 32, 160, 5760, 8232, 8233, 8239, 8287, 12288, 65279}
                 \<or> (8192 \<le> c \<and> c \<le> 8202))"

definition trim :: "jstring \<Rightarrow> jstring" where
  "trim s = rev (dropWhile is_space (rev (dropWhile is_space s)))"

text \<open>\<^verbatim>\<open>xs.join(sep)\<close> on an array of strings.\<close>

fun join :: "jstring \<Rightarrow> jstring list \<Rightarrow> jstring" where
  "join sep [] = []"
| "join sep [x] = x"
| "join sep (x # y # ys) = x @ sep @ join sep (y # ys)"

text \<open>\<^verbatim>\<open>s.replace(p, r)\<close> with a string pattern: the first occurrence only.\<close>

fun replace_first :: "jstring \<Rightarrow> jstring \<Rightarrow> jstring \<Rightarrow> jstring" where
  "replace_first p r [] = (if p = [] then r else [])"
| "replace_first p r (c # cs) =
     (if prefix p (c # cs) then r @ drop (length p) (c # cs) else c # replace_first p r cs)"

text \<open>The decimal digits of an index, as a template literal prints it.\<close>

fun show_nat :: "nat \<Rightarrow> jstring" where
  "show_nat n = (if n < 10 then [48 + n] else show_nat (n div 10) @ [48 + n mod 10])"

declare show_nat.simps [simp del]

section \<open>Errors\<close>

text \<open>
  What a \<^verbatim>\<open>throw\<close> or a rejected promise carries. The text of a \<^verbatim>\<open>TypeError\<close> or a
  \<^verbatim>\<open>SyntaxError\<close> is the engine's, so it is a parameter (\<open>engine_message\<close> below).
\<close>

datatype engine_error =
    ReadOfNullish jv jstring
  | NotAFunction jv jstring
  | CreateProperty jv jstring
  | JsonSyntax jv

datatype jserror =
    Error jstring
  | TypeError engine_error
  | SyntaxError engine_error
  | External jstring jstring bool

text \<open>\<open>External name message meta\<close> is an error of a collaborator (the AWS SDK, the network,
  the configuration store); \<open>meta\<close> says whether it carries \<^verbatim>\<open>$metadata\<close>.\<close>

fun error_name :: "jserror \<Rightarrow> jstring" where
  "error_name (Error m) = js ''Error''"
| "error_name (TypeError e) = js ''TypeError''"
| "error_name (SyntaxError e) = js ''SyntaxError''"
| "error_name (External n m meta) = n"

fun has_metadata :: "jserror \<Rightarrow> bool" where
  "has_metadata (External n m meta) = meta"
| "has_metadata e = False"

section \<open>The recipe model: validateRecipe\<close>

record validation =
  valid :: bool
  errors :: "jstring list"

text \<open>The body of \<^verbatim>\<open>recipe.ingredients.forEach((ingredient, index) => ...)\<close>, with the
  \<open>errors\<close> array passed along.\<close>

fun forEach_ingredient :: "jv list \<Rightarrow> nat \<Rightarrow> jstring list \<Rightarrow> jserror + jstring list" where
  "forEach_ingredient [] index errs = Inr errs"
| "forEach_ingredient (ingredient # rest) index errs =
     (if nullish ingredient then Inl (TypeError (ReadOfNullish ingredient (js ''name'')))
      else
        let errs1 =
              (if \<not> truthy (get_prop ingredient (js ''name''))
                  \<or> typeof (get_prop ingredient (js ''name'')) \<noteq> ''string''
               then errs @ [js ''Ingredient '' @ show_nat index @ js '': name is required and must be a string'']
               else errs);
            errs2 =
              (if typeof (get_prop ingredient (js ''quantity'')) \<noteq> ''number''
               then errs1 @ [js ''Ingredient '' @ show_nat index @ js '': quantity must be a number'']
               else errs1);
            errs3 =
              (if \<not> truthy (get_prop ingredient (js ''unit''))
                  \<or> typeof (get_prop ingredient (js ''unit'')) \<noteq> ''string''
               then errs2 @ [js ''Ingredient '' @ show_nat index @ js '': unit is required and must be a string'']
               else errs2)
        in forEach_ingredient rest (Suc index) errs3)"

fun forEach_step :: "jv list \<Rightarrow> nat \<Rightarrow> jstring list \<Rightarrow> jserror + jstring list" where
  "forEach_step [] index errs = Inr errs"
| "forEach_step (step # rest) index errs =
     (if nullish step then Inl (TypeError (ReadOfNullish step (js ''order'')))
      else
        let errs1 =
              (if typeof (get_prop step (js ''order'')) \<noteq> ''number''
               then errs @ [js ''Step '' @ show_nat index @ js '': order must be a number'']
               else errs);
            errs2 =
              (if \<not> truthy (get_prop step (js ''text''))
                  \<or> typeof (get_prop step (js ''text'')) \<noteq> ''string''
               then errs1 @ [js ''Step '' @ show_nat index @ js '': text is required and must be a string'']
               else errs1)
        in forEach_step rest (Suc index) errs2)"

definition validateRecipe :: "jv \<Rightarrow> jserror + validation" where
  "validateRecipe recipe =
     (if \<not> truthy recipe then Inr \<lparr>valid = False, errors = [js ''Recipe object is required'']\<rparr>
      else
        let errs0 = [];
            errs1 =
              (if \<not> truthy (get_prop recipe (js ''title''))
                  \<or> typeof (get_prop recipe (js ''title'')) \<noteq> ''string''
               then errs0 @ [js ''Title is required and must be a string''] else errs0);
            errs2 =
              (if \<not> truthy (get_prop recipe (js ''servings''))
                  \<or> typeof (get_prop recipe (js ''servings'')) \<noteq> ''number''
               then errs1 @ [js ''Servings is required and must be a number''] else errs1)
        in
        case (if \<not> isArray (get_prop recipe (js ''ingredients''))
              then Inr (errs2 @ [js ''Ingredients must be an array''])
              else forEach_ingredient (elements (get_prop recipe (js ''ingredients''))) 0 errs2) of
          Inl e \<Rightarrow> Inl e
        | Inr errs3 \<Rightarrow>
           (case (if \<not> isArray (get_prop recipe (js ''steps''))
                  then Inr (errs3 @ [js ''Steps must be an array''])
                  else forEach_step (elements (get_prop recipe (js ''steps''))) 0 errs3) of
              Inl e \<Rightarrow> Inl e
            | Inr errs4 \<Rightarrow>
                let errs5 =
                      (if \<not> isArray (get_prop recipe (js ''tags''))
                       then errs4 @ [js ''Tags must be an array''] else errs4)
                in Inr \<lparr>valid = (length errs5 = 0), errors = errs5\<rparr>))"

section \<open>Response envelopes: response.util\<close>

text \<open>The field \<open>body\<close> holds the object that the source hands to \<^verbatim>\<open>JSON.stringify\<close>.\<close>

record response =
  statusCode :: nat
  headers :: "(jstring \<times> jv) list"
  body :: jv

definition successResponse :: "jv \<Rightarrow> nat \<Rightarrow> response" where
  "successResponse data code =
     \<lparr>statusCode = code,
      headers = [(js ''Content-Type'', JStr (js ''application/json'')),
                 (js ''Access-Control-Allow-Origin'', JStr (js ''*'')),
                 (js ''Access-Control-Allow-Credentials'', JBool True)],
      body = JObj [(js ''success'', JBool True), (js ''data'', data)]\<rparr>"

definition errorResponse :: "jstring \<Rightarrow> nat \<Rightarrow> jv list \<Rightarrow> response" where
  "errorResponse msg code details =
     \<lparr>statusCode = code,
      headers = [(js ''Content-Type'', JStr (js ''application/json'')),
                 (js ''Access-Control-Allow-Origin'', JStr (js ''*'')),
                 (js ''Access-Control-Allow-Credentials'', JBool True)],
      body = JObj [(js ''success'', JBool False),
                   (js ''error'', JObj [(js ''message'', JStr msg),
                                        (js ''details'', JArr details [])])]\<rparr>"

section \<open>Web pages: extractTextFromHtml\<close>

text \<open>
  \<^verbatim>\<open>text.replace(re, r)\<close> with a global regular expression none of whose matches is empty.
  The matcher \<open>m\<close> gives the length of the match that starts at the head of its argument, if
  there is one; the scan copies a code unit where nothing matches and resumes after a
  match, as the engine does.
\<close>

fun replace_all :: "(jstring \<Rightarrow> nat option) \<Rightarrow> jstring \<Rightarrow> jstring \<Rightarrow> jstring" where
  "replace_all m r [] = []"
| "replace_all m r (c # cs) =
     (case m (c # cs) of
        Some n \<Rightarrow> r @ replace_all m r (drop (n - 1) cs)
      | None \<Rightarrow> c # replace_all m r cs)"

text \<open>The flag \<^verbatim>\<open>i\<close> on patterns of ASCII letters: only \<^verbatim>\<open>A-Z\<close> fold.\<close>

definition ascii_lower :: "nat \<Rightarrow> nat" where
  "ascii_lower c = (if 65 \<le> c \<and> c \<le> 90 then c + 32 else c)"

definition ci_prefix :: "jstring \<Rightarrow> jstring \<Rightarrow> bool" where
  "ci_prefix p s = prefix p (map ascii_lower s)"

text \<open>The index of the first occurrence of a code unit, of a literal, of a literal up to case.\<close>

fun find_char :: "nat \<Rightarrow> jstring \<Rightarrow> nat option" where
  "find_char x [] = None"
| "find_char x (c # cs) = (if c = x then Some 0 else map_option Suc (find_char x cs))"

fun find_lit :: "jstring \<Rightarrow> jstring \<Rightarrow> nat option" where
  "find_lit p [] = (if p = [] then Some 0 else None)"
| "find_lit p (c # cs) = (if prefix p (c # cs) then Some 0 else map_option Suc (find_lit p cs))"

fun find_ci :: "jstring \<Rightarrow> jstring \<Rightarrow> nat option" where
  "find_ci p [] = (if p = [] then Some 0 else None)"
| "find_ci p (c # cs) = (if ci_prefix p (c # cs) then Some 0 else map_option Suc (find_ci p cs))"

text \<open>\<^verbatim>\<open>/<TAG[^>]*>[\s\S]*?<\/TAG>/gi\<close>: the opening tag runs to the first \<^verbatim>\<open>>\<close>, the lazy body to
  the first closing tag after it.\<close>

definition m_block :: "string \<Rightarrow> jstring \<Rightarrow> nat option" where
  "m_block tag s =
     (let k = length tag + 1 in
      if ci_prefix (js (''<'' @ tag)) s then
        (case find_char 62 (drop k s) of
           None \<Rightarrow> None
         | Some i \<Rightarrow>
            (case find_ci (js (''</'' @ tag @ ''>'')) (drop (k + i + 1) s) of
               None \<Rightarrow> None
             | Some j \<Rightarrow> Some (k + i + 1 + j + (length tag + 3))))
      else None)"

text \<open>\<^verbatim>\<open>/<!--[\s\S]*?-->/g\<close>\<close>

definition m_comment :: "jstring \<Rightarrow> nat option" where
  "m_comment s =
     (if prefix (js ''<!--'') s then
        (case find_lit (js ''-->'') (drop 4 s) of
           None \<Rightarrow> None
         | Some j \<Rightarrow> Some (4 + j + 3))
      else None)"

text \<open>\<^verbatim>\<open>/<\/(div|p|br|li|tr|h[1-6])[^>]*>/gi\<close> and \<^verbatim>\<open>/<(br|hr)[^>]*>/gi\<close>: an opener, one of the
  alternatives, then everything up to the first \<^verbatim>\<open>>\<close>.\<close>

definition m_tag_of :: "string \<Rightarrow> string list \<Rightarrow> jstring \<Rightarrow> nat option" where
  "m_tag_of opener alts s =
     (if ci_prefix (js opener) s then
        (case List.find (\<lambda>a. ci_prefix (js a) (drop (length opener) s)) alts of
           None \<Rightarrow> None
         | Some a \<Rightarrow>
            (case find_char 62 (drop (length opener + length a) s) of
               None \<Rightarrow> None
             | Some i \<Rightarrow> Some (length opener + length a + i + 1)))
      else None)"

text \<open>\<^verbatim>\<open>/<[^>]+>/g\<close>\<close>

definition m_any_tag :: "jstring \<Rightarrow> nat option" where
  "m_any_tag s =
     (case s of
        c # d # rest \<Rightarrow>
          (if c = 60 \<and> d \<noteq> 62 then
             (case find_char 62 rest of None \<Rightarrow> None | Some i \<Rightarrow> Some (i + 3))
           else None)
      | _ \<Rightarrow> None)"

text \<open>A literal pattern such as \<^verbatim>\<open>/&amp;/g\<close>.\<close>

definition m_lit :: "jstring \<Rightarrow> jstring \<Rightarrow> nat option" where
  "m_lit p s = (if p \<noteq> [] \<and> prefix p s then Some (length p) else None)"

text \<open>\<^verbatim>\<open>/\n\s*\n/g\<close>: the greedy \<^verbatim>\<open>\s*\<close> takes the whole run of white space and gives back
  down to the last line feed in it.\<close>

definition m_blank_lines :: "jstring \<Rightarrow> nat option" where
  "m_blank_lines s =
     (case s of
        c # rest \<Rightarrow>
          (let run = takeWhile is_space rest in
           if c = 10 \<and> 10 \<in> set run
           then Some (1 + length (dropWhile (\<lambda>x. x \<noteq> 10) (rev run)))
           else None)
      | [] \<Rightarrow> None)"

text \<open>\<^verbatim>\<open>/[ \t]+/g\<close>\<close>

definition m_blanks :: "jstring \<Rightarrow> nat option" where
  "m_blanks s =
     (let run = takeWhile (\<lambda>x. x = 32 \<or> x = 9) s in
      if run \<noteq> [] then Some (length run) else None)"

definition extractTextFromHtml :: "jstring \<Rightarrow> jstring" where
  "extractTextFromHtml html =
     (let text = html;
          text = replace_all (m_block ''script'') [] text;
          text = replace_all (m_block ''style'') [] text;
          text = replace_all (m_block ''noscript'') [] text;
          text = replace_all m_comment [] text;
          text = replace_all
                   (m_tag_of ''</'' [''div'', ''p'', ''br'', ''li'', ''tr'',
                                     ''h1'', ''h2'', ''h3'', ''h4'', ''h5'', ''h6''])
                   [10] text;
          text = replace_all (m_tag_of ''<'' [''br'', ''hr'']) [10] text;
          text = replace_all m_any_tag [32] text;
          text = replace_all (m_lit (js ''&nbsp;'')) (js '' '') text;
          text = replace_all (m_lit (js ''&amp;'')) (js ''&'') text;
          text = replace_all (m_lit (js ''&lt;'')) (js ''<'') text;
          text = replace_all (m_lit (js ''&gt;'')) (js ''>'') text;
          text = replace_all (m_lit (js ''&quot;'')) [34] text;
          text = replace_all (m_lit (js ''&#39;'')) [39] text;
          text = replace_all (m_lit (js ''&euro;'')) [8364] text;
          text = replace_all m_blank_lines [10, 10] text;
          text = replace_all m_blanks [32] text;
          text = trim text
      in text)"

text \<open>Lines 83-104 and lines 107-109 of \<^verbatim>\<open>extractTextFromHtml\<close>.\<close>

definition markup_stages :: "jstring \<Rightarrow> jstring" where
  "markup_stages html =
     (let text = html;
          text = replace_all (m_block ''script'') [] text;
          text = replace_all (m_block ''style'') [] text;
          text = replace_all (m_block ''noscript'') [] text;
          text = replace_all m_comment [] text;
          text = replace_all
                   (m_tag_of ''</'' [''div'', ''p'', ''br'', ''li'', ''tr'',
                                     ''h1'', ''h2'', ''h3'', ''h4'', ''h5'', ''h6''])
                   [10] text;
          text = replace_all (m_tag_of ''<'' [''br'', ''hr'']) [10] text;
          text = replace_all m_any_tag [32] text;
          text = replace_all (m_lit (js ''&nbsp;'')) (js '' '') text;
          text = replace_all (m_lit (js ''&amp;'')) (js ''&'') text;
          text = replace_all (m_lit (js ''&lt;'')) (js ''<'') text;
          text = replace_all (m_lit (js ''&gt;'')) (js ''>'') text;
          text = replace_all (m_lit (js ''&quot;'')) [34] text;
          text = replace_all (m_lit (js ''&#39;'')) [39] text;
          text = replace_all (m_lit (js ''&euro;'')) [8364] text
      in text)"

definition whitespace_stages :: "jstring \<Rightarrow> jstring" where
  "whitespace_stages text =
     trim (replace_all m_blanks [32] (replace_all m_blank_lines [10, 10] text))"

section \<open>The runtime and the collaborators\<close>

text \<open>
  What the source calls and does not define: built-ins of the engine, the configuration
  store, the environment, the clock and the remote services. Each is the settled outcome
  of the call, as a function of its arguments.
\<close>

record runtime =
  JSON_parse :: "jv \<Rightarrow> jv option"
  URL_protocol :: "jv \<Rightarrow> jstring option"
  ToNumber :: "jv \<Rightarrow> rat option"
  String_toLowerCase :: "jstring \<Rightarrow> jstring"
  engine_message :: "engine_error \<Rightarrow> jstring"

text \<open>\<open>JSON_parse\<close> is \<open>None\<close> where \<^verbatim>\<open>JSON.parse\<close> throws its \<^verbatim>\<open>SyntaxError\<close>; \<open>URL_protocol\<close> is
  \<open>None\<close> where \<^verbatim>\<open>new URL\<close> throws; \<open>ToNumber\<close> is \<open>None\<close> for \<^verbatim>\<open>NaN\<close>.\<close>

record env = runtime +
  getConfigValue_MODEL_ID :: "jserror + jstring"
  AWS_REGION :: "jstring option"
  bedrockClient_send :: "jstring \<Rightarrow> jv \<Rightarrow> jserror + jstring"
  sendRecipeToAPI :: "jv \<Rightarrow> jserror + jv"
  fetchWebpage :: "jv \<Rightarrow> jserror + jstring"
  now :: jstring

text \<open>\<open>bedrockClient_send modelId recipeText\<close> is the decoded body of the model's response.\<close>

text \<open>The calls to the remote services, in the order they are made.\<close>

datatype call =
    InvokeModel jstring jv
  | SendRecipe jv
  | FetchWebpage jv

fun error_message :: "'a runtime_scheme \<Rightarrow> jserror \<Rightarrow> jstring" where
  "error_message rt (Error m) = m"
| "error_message rt (TypeError e) = engine_message rt e"
| "error_message rt (SyntaxError e) = engine_message rt e"
| "error_message rt (External n m meta) = m"

text \<open>Sequencing of steps that may throw.\<close>

definition and_then :: "'e + 'a \<Rightarrow> ('a \<Rightarrow> 'e + 'b) \<Rightarrow> 'e + 'b" where
  "and_then m f = (case m of Inl e \<Rightarrow> Inl e | Inr x \<Rightarrow> f x)"

text \<open>\<^verbatim>\<open>o.k = x\<close> in a module (strict mode): it throws on a primitive.\<close>

fun set_prop :: "jv \<Rightarrow> jstring \<Rightarrow> jv \<Rightarrow> jserror + jv" where
  "set_prop (JObj ps) k x = Inr (JObj (assign ps k x))"
| "set_prop (JArr xs ps) k x = Inr (JArr xs (assign ps k x))"
| "set_prop v k x = Inl (TypeError (CreateProperty v k))"

section \<open>The backend adapter: bedrock.service\<close>

text \<open>Lines 28-38: the inference profile of a Nova model.\<close>

definition inference_profile :: "jstring option \<Rightarrow> jstring \<Rightarrow> jstring" where
  "inference_profile region_var modelId =
     (if str_includes modelId (js ''amazon.nova'') then
        let modelName = replace_first (js ''nova-2-'') (js ''nova-'')
                          (replace_first (js ''amazon.'') [] modelId);
            region = (case region_var of
                        None \<Rightarrow> js ''us-east-1''
                      | Some r \<Rightarrow> if r = [] then js ''us-east-1'' else r);
            regionPrefix =
              (if prefix (js ''us-'') region then js ''us''
               else if prefix (js ''eu-'') region then js ''eu''
               else if prefix (js ''ap-'') region then js ''ap''
               else js ''us'')
        in regionPrefix @ js ''.amazon.'' @ modelName
      else modelId)"

text \<open>\<^verbatim>\<open>items.find(item => P(item.k))\<close>: undefined when no item passes.\<close>

fun find_item :: "(jv \<Rightarrow> bool) \<Rightarrow> jstring \<Rightarrow> jv list \<Rightarrow> jserror + jv" where
  "find_item P k [] = Inr JUndefined"
| "find_item P k (item # rest) =
     (if nullish item then Inl (TypeError (ReadOfNullish item k))
      else if P (get_prop item k) then Inr item
      else find_item P k rest)"

text \<open>Lines 85-98: the textual content item of either envelope.\<close>

definition find_textContent :: "jv \<Rightarrow> jserror + jv" where
  "find_textContent responseBody =
     (if nullish responseBody then Inl (TypeError (ReadOfNullish responseBody (js ''output'')))
      else if truthy (get_prop responseBody (js ''output''))
              \<and> truthy (get_prop (get_prop responseBody (js ''output'')) (js ''message''))
      then
        (let message = get_prop (get_prop responseBody (js ''output'')) (js ''message'') in
         if truthy (get_prop message (js ''content''))
            \<and> isArray (get_prop message (js ''content''))
            \<and> length (elements (get_prop message (js ''content''))) > 0
         then find_item truthy (js ''text'') (elements (get_prop message (js ''content'')))
         else Inr JUndefined)
      else if truthy (get_prop responseBody (js ''content''))
              \<and> isArray (get_prop responseBody (js ''content''))
      then find_item (\<lambda>v. v = JStr (js ''text'')) (js ''type'')
             (elements (get_prop responseBody (js ''content'')))
      else Inr JUndefined)"

text \<open>Lines 115-119: the arrow function mapped over the ingredients.\<close>

definition map_ingredient :: "'a runtime_scheme \<Rightarrow> jv \<Rightarrow> jserror + jv" where
  "map_ingredient rt ingredient =
     (if nullish ingredient then Inl (TypeError (ReadOfNullish ingredient (js ''name'')))
      else
        let name = get_prop ingredient (js ''name'');
            quantity = (if truthy (get_prop ingredient (js ''quantity''))
                        then get_prop ingredient (js ''quantity'') else JNum 1);
            unit = (if truthy (get_prop ingredient (js ''unit''))
                    then get_prop ingredient (js ''unit'') else JStr [])
        in case unit of
             JStr u \<Rightarrow> Inr (JObj [(js ''name'', name), (js ''quantity'', quantity),
                                  (js ''unit'', JStr (String_toLowerCase rt u))])
           | _ \<Rightarrow> Inl (TypeError (NotAFunction unit (js ''toLowerCase''))))"

fun map_ingredients :: "'a runtime_scheme \<Rightarrow> jv list \<Rightarrow> jserror + jv list" where
  "map_ingredients rt [] = Inr []"
| "map_ingredients rt (ingredient # rest) =
     and_then (map_ingredient rt ingredient) (\<lambda>y.
     and_then (map_ingredients rt rest) (\<lambda>ys. Inr (y # ys)))"

text \<open>Lines 124-127: the arrow function mapped over the steps, with its index.\<close>

fun map_steps :: "jv list \<Rightarrow> nat \<Rightarrow> jserror + jv list" where
  "map_steps [] index = Inr []"
| "map_steps (step # rest) index =
     (if nullish step then Inl (TypeError (ReadOfNullish step (js ''order'')))
      else
        let order = (if truthy (get_prop step (js ''order''))
                     then get_prop step (js ''order'') else JNum (of_nat (index + 1)))
        in and_then (map_steps rest (Suc index)) (\<lambda>ys.
             Inr (JObj [(js ''order'', order), (js ''text'', get_prop step (js ''text''))] # ys)))"

text \<open>Lines 108-135: defaults and normalisation of the parsed recipe.\<close>

definition apply_defaults :: "'a runtime_scheme \<Rightarrow> jv \<Rightarrow> jserror + jv" where
  "apply_defaults rt recipe =
     (if nullish recipe then Inl (TypeError (ReadOfNullish recipe (js ''servings'')))
      else
        and_then (if \<not> truthy (get_prop recipe (js ''servings''))
                  then set_prop recipe (js ''servings'') (JNum 4) else Inr recipe) (\<lambda>recipe.
        and_then (if truthy (get_prop recipe (js ''ingredients''))
                     \<and> isArray (get_prop recipe (js ''ingredients''))
                  then and_then (map_ingredients rt (elements (get_prop recipe (js ''ingredients''))))
                         (\<lambda>xs. set_prop recipe (js ''ingredients'') (JArr xs []))
                  else Inr recipe) (\<lambda>recipe.
        and_then (if truthy (get_prop recipe (js ''steps''))
                     \<and> isArray (get_prop recipe (js ''steps''))
                  then and_then (map_steps (elements (get_prop recipe (js ''steps''))) 0)
                         (\<lambda>xs. set_prop recipe (js ''steps'') (JArr xs []))
                  else Inr recipe) (\<lambda>recipe.
        if \<not> truthy (get_prop recipe (js ''tags''))
        then set_prop recipe (js ''tags'') (JArr [] []) else Inr recipe))))"

text \<open>Lines 77-135: the body of the \<^verbatim>\<open>try\<close> block, after the request is built.\<close>

definition extractRecipe_try :: "env \<Rightarrow> jstring \<Rightarrow> jv \<Rightarrow> jserror + jv" where
  "extractRecipe_try env modelId recipeText =
     and_then (bedrockClient_send env modelId recipeText) (\<lambda>decoded.
     and_then (case JSON_parse env (JStr decoded) of
                 None \<Rightarrow> Inl (SyntaxError (JsonSyntax (JStr decoded)))
               | Some responseBody \<Rightarrow> Inr responseBody) (\<lambda>responseBody.
     and_then (find_textContent responseBody) (\<lambda>textContent.
       if \<not> truthy textContent \<or> \<not> truthy (get_prop textContent (js ''text''))
       then Inl (Error (js ''No text content found in Bedrock response''))
       else
         and_then (case JSON_parse env (get_prop textContent (js ''text'')) of
                     None \<Rightarrow> Inl (SyntaxError (JsonSyntax (get_prop textContent (js ''text''))))
                   | Some recipe \<Rightarrow> Inr recipe)
           (apply_defaults env))))"

text \<open>Lines 137-150: the \<^verbatim>\<open>catch\<close> block.\<close>

definition extractRecipe_catch :: "env \<Rightarrow> jserror \<Rightarrow> jserror" where
  "extractRecipe_catch env error =
     (if error_name error = js ''SyntaxError''
      then Error (js ''Failed to parse recipe JSON from Bedrock response'')
      else if has_metadata error
      then Error (js ''AWS Bedrock error: '' @ error_message env error)
      else error)"

definition extractRecipe :: "env \<Rightarrow> jv \<Rightarrow> call list \<times> (jserror + jv)" where
  "extractRecipe env recipeText =
     (case getConfigValue_MODEL_ID env of
        Inl e \<Rightarrow> ([], Inl e)
      | Inr configured \<Rightarrow>
         (let modelId = inference_profile (AWS_REGION env) configured in
          if \<not> truthy recipeText \<or> typeof recipeText \<noteq> ''string''
          then ([], Inl (Error (js ''Recipe text is required and must be a string'')))
          else ([InvokeModel modelId recipeText],
                case extractRecipe_try env modelId recipeText of
                  Inl error \<Rightarrow> Inl (extractRecipe_catch env error)
                | Inr recipe \<Rightarrow> Inr recipe)))"

text \<open>\<^verbatim>\<open>checkBedrockAvailability\<close>: one extraction of a fixed text; any failure is \<open>False\<close>.\<close>

definition checkBedrockAvailability :: "env \<Rightarrow> bool" where
  "checkBedrockAvailability env =
     (case snd (extractRecipe env (JStr (js ''Test recipe: pasta with tomato sauce''))) of
        Inl e \<Rightarrow> False
      | Inr r \<Rightarrow> True)"

section \<open>The orchestrator: recipe.controller\<close>

text \<open>Lines 63-76: the \<^verbatim>\<open>catch\<close> block of \<^verbatim>\<open>extractRecipeFromText\<close>.\<close>

definition controller_catch :: "env \<Rightarrow> jserror \<Rightarrow> jserror" where
  "controller_catch env error =
     (if str_includes (error_message env error) (js ''Bedrock'')
      then Error (js ''Bedrock service error: '' @ error_message env error)
      else if str_includes (error_message env error) (js ''parse'')
      then Error (js ''Failed to parse recipe from AI response. The text might not be a valid recipe.'')
      else error)"

text \<open>\<^verbatim>\<open>!recipeText || typeof recipeText !== 'string' || recipeText.trim().length === 0\<close>\<close>

fun blank_input :: "jv \<Rightarrow> bool" where
  "blank_input (JStr s) = (s = [] \<or> length (trim s) = 0)"
| "blank_input v = True"

definition extractRecipeFromText :: "env \<Rightarrow> jv \<Rightarrow> call list \<times> (jserror + jv)" where
  "extractRecipeFromText env recipeText =
     (case getConfigValue_MODEL_ID env of
        Inl e \<Rightarrow> ([], Inl e)
      | Inr modelId \<Rightarrow>
         if blank_input recipeText
         then ([], Inl (Error (js ''Recipe text is required and cannot be empty'')))
         else
           (case extractRecipe env recipeText of
              (calls, Inl error) \<Rightarrow> (calls, Inl (controller_catch env error))
            | (calls, Inr extractedRecipe) \<Rightarrow>
               (case validateRecipe extractedRecipe of
                  Inl error \<Rightarrow> (calls, Inl (controller_catch env error))
                | Inr validation \<Rightarrow>
                   if \<not> valid validation
                   then (calls, Inl (controller_catch env
                           (Error (js ''Invalid recipe format: '' @ join (js '', '') (errors validation)))))
                   else
                     (let apiResponse =
                            (case sendRecipeToAPI env extractedRecipe of
                               Inr sent \<Rightarrow> sent
                             | Inl apiError \<Rightarrow>
                                 JObj [(js ''error'', JStr (error_message env apiError)),
                                       (js ''sent'', JBool False)])
                      in (calls @ [SendRecipe extractedRecipe],
                          Inr (JObj [(js ''recipe'', extractedRecipe),
                                     (js ''apiResponse'', apiResponse),
                                     (js ''metadata'',
                                        JObj [(js ''extractedAt'', JStr (now env)),
                                              (js ''modelUsed'', JStr modelId)])]))))))"

text \<open>
  \<^verbatim>\<open>healthCheck\<close> awaits the two probes of the services it imports and catches what they
  throw; a probe is the outcome of its call.
\<close>

record probes = runtime +
  bedrock_probe :: "jserror + bool"
  api_probe :: "jserror + bool"
  probe_time :: jstring

definition unhealthy :: "probes \<Rightarrow> jserror \<Rightarrow> jv" where
  "unhealthy p error =
     JObj [(js ''status'', JStr (js ''unhealthy'')),
           (js ''error'', JStr (error_message p error)),
           (js ''timestamp'', JStr (probe_time p))]"

definition healthCheck :: "probes \<Rightarrow> jv" where
  "healthCheck p =
     (case bedrock_probe p of
        Inl error \<Rightarrow> unhealthy p error
      | Inr bedrockAvailable \<Rightarrow>
         (case api_probe p of
            Inl error \<Rightarrow> unhealthy p error
          | Inr apiAvailable \<Rightarrow>
             (let allHealthy = (bedrockAvailable \<and> apiAvailable) in
              JObj [(js ''status'', JStr (if allHealthy then js ''healthy'' else js ''degraded'')),
                    (js ''services'',
                       JObj [(js ''bedrock'',
                                JStr (if bedrockAvailable then js ''available'' else js ''unavailable'')),
                             (js ''recipeKeeperAPI'',
                                JStr (if apiAvailable then js ''available'' else js ''unavailable''))]),
                    (js ''timestamp'', JStr (probe_time p))])))"

section \<open>The event router: handler\<close>

text \<open>\<^verbatim>\<open>v > limit\<close> for a number \<open>limit\<close>.\<close>

fun greater_than :: "'a runtime_scheme \<Rightarrow> jv \<Rightarrow> rat \<Rightarrow> bool" where
  "greater_than rt (JNum r) limit = (r > limit)"
| "greater_than rt JUndefined limit = False"
| "greater_than rt v limit = (case ToNumber rt v of None \<Rightarrow> False | Some r \<Rightarrow> r > limit)"

definition handleTextExtraction :: "env \<Rightarrow> jv \<Rightarrow> call list \<times> (jserror + response)" where
  "handleTextExtraction env recipeText =
     (if nullish recipeText then ([], Inl (TypeError (ReadOfNullish recipeText (js ''length''))))
      else if greater_than env (js_length recipeText) 50000
      then ([], Inr (errorResponse (js ''Recipe text too long (max 50000 characters)'') 400 []))
      else
        (case extractRecipeFromText env recipeText of
           (calls, Inl error) \<Rightarrow> (calls, Inl error)
         | (calls, Inr result) \<Rightarrow> (calls, Inr (successResponse result 200))))"

definition isValidUrl :: "'a runtime_scheme \<Rightarrow> jv \<Rightarrow> bool" where
  "isValidUrl rt url =
     (case URL_protocol rt url of
        None \<Rightarrow> False
      | Some protocol \<Rightarrow> protocol = js ''http:'' \<or> protocol = js ''https:'')"

record webContent =
  wc_url :: jv
  wc_html :: jstring
  wc_text :: jstring
  wc_contentLength :: nat

definition fetchAndExtractWebpage :: "env \<Rightarrow> jv \<Rightarrow> jserror + webContent" where
  "fetchAndExtractWebpage env url =
     (case fetchWebpage env url of
        Inl error \<Rightarrow> Inl error
      | Inr html \<Rightarrow>
         (let text = extractTextFromHtml html in
          Inr \<lparr>wc_url = url, wc_html = html, wc_text = text, wc_contentLength = length text\<rparr>))"

text \<open>Lines 304-312: the \<^verbatim>\<open>catch\<close> block of \<^verbatim>\<open>handleUrlExtraction\<close>.\<close>

definition url_catch :: "env \<Rightarrow> jserror \<Rightarrow> jserror + response" where
  "url_catch env error =
     (if str_includes (error_message env error) (js ''fetch'')
         \<or> str_includes (error_message env error) (js ''timeout'')
      then Inr (errorResponse (js ''Failed to fetch webpage'') 502 [JStr (error_message env error)])
      else Inl error)"

definition handleUrlExtraction :: "env \<Rightarrow> jv \<Rightarrow> call list \<times> (jserror + response)" where
  "handleUrlExtraction env url =
     (if \<not> isValidUrl env url then ([], Inr (errorResponse (js ''Invalid URL format'') 400 []))
      else
        (case fetchAndExtractWebpage env url of
           Inl error \<Rightarrow> ([FetchWebpage url], url_catch env error)
         | Inr webContent \<Rightarrow>
            if wc_text webContent = [] \<or> length (trim (wc_text webContent)) = 0
            then ([FetchWebpage url], Inr (errorResponse (js ''No text content found at URL'') 422 []))
            else
              (let textToProcess =
                     (if length (wc_text webContent) > 50000
                      then take 50000 (wc_text webContent) else wc_text webContent)
               in case extractRecipeFromText env (JStr textToProcess) of
                    (calls, Inl error) \<Rightarrow> (FetchWebpage url # calls, url_catch env error)
                  | (calls, Inr result) \<Rightarrow>
                      (FetchWebpage url # calls,
                       Inr (successResponse
                              (JObj (assign (assign (own_props result) (js ''sourceUrl'') url)
                                       (js ''extractedTextLength'')
                                       (JNum (of_nat (length (wc_text webContent))))))
                              200)))))"

text \<open>Lines 246-264: the \<^verbatim>\<open>catch\<close> block of \<^verbatim>\<open>handleApiGatewayEvent\<close>.\<close>

definition api_catch :: "env \<Rightarrow> jserror \<Rightarrow> response" where
  "api_catch env error =
     (if str_includes (error_message env error) (js ''Bedrock'')
      then errorResponse (js ''AI service temporarily unavailable'') 503 [JStr (error_message env error)]
      else if str_includes (error_message env error) (js ''parse'')
              \<or> str_includes (error_message env error) (js ''Invalid recipe'')
      then errorResponse (js ''Could not extract valid recipe from text'') 422
             [JStr (error_message env error)]
      else if str_includes (error_message env error) (js ''required'')
      then errorResponse (error_message env error) 400 []
      else errorResponse (js ''Internal server error'') 500 [JStr (error_message env error)])"

text \<open>Lines 221-227: the request body; \<open>None\<close> where the inner \<^verbatim>\<open>try\<close> catches.\<close>

definition request_body :: "env \<Rightarrow> jv \<Rightarrow> jv option" where
  "request_body env event =
     (if nullish event then None
      else if typeof (get_prop event (js ''body'')) = ''string''
      then JSON_parse env (get_prop event (js ''body''))
      else Some (get_prop event (js ''body'')))"

definition handleApiGatewayEvent :: "env \<Rightarrow> jv \<Rightarrow> call list \<times> response" where
  "handleApiGatewayEvent env event =
     (case request_body env event of
        None \<Rightarrow> ([], errorResponse (js ''Invalid JSON in request body'') 400 [])
      | Some body' \<Rightarrow>
         if \<not> truthy body' then ([], errorResponse (js ''Missing request body'') 400 [])
         else if truthy (get_prop body' (js ''url''))
         then (case handleUrlExtraction env (get_prop body' (js ''url'')) of
                 (calls, Inl error) \<Rightarrow> (calls, api_catch env error)
               | (calls, Inr r) \<Rightarrow> (calls, r))
         else if truthy (get_prop body' (js ''recipeText''))
         then (case handleTextExtraction env (get_prop body' (js ''recipeText'')) of
                 (calls, Inl error) \<Rightarrow> (calls, api_catch env error)
               | (calls, Inr r) \<Rightarrow> (calls, r))
         else ([], errorResponse (js ''Missing required parameter: url or recipeText'') 400 []))"

text \<open>\<^verbatim>\<open>event.Records && event.Records[0]?.eventSource === source\<close>, for an event that is
  neither null nor undefined.\<close>

definition first_record_from :: "jv \<Rightarrow> jstring \<Rightarrow> bool" where
  "first_record_from event source =
     (truthy (get_prop event (js ''Records''))
      \<and> (let record0 = first_element (get_prop event (js ''Records'')) in
           (if nullish record0 then JUndefined else get_prop record0 (js ''eventSource''))
           = JStr source))"

text \<open>The handlers of the two batch paths, which the router calls on the event.\<close>

record batch_handlers =
  handleSqsEvent :: "jv \<Rightarrow> call list \<times> (jserror + response)"
  handleS3Event :: "jv \<Rightarrow> call list \<times> (jserror + response)"

text \<open>Lines 48-51: the \<^verbatim>\<open>catch\<close> block of \<^verbatim>\<open>handler\<close>.\<close>

definition handler_catch :: "env \<Rightarrow> jserror + response \<Rightarrow> response" where
  "handler_catch env outcome =
     (case outcome of
        Inr r \<Rightarrow> r
      | Inl error \<Rightarrow> errorResponse (js ''Internal server error'') 500 [JStr (error_message env error)])"

definition handler :: "batch_handlers \<Rightarrow> env \<Rightarrow> jv \<Rightarrow> call list \<times> response" where
  "handler bh env event =
     (if nullish event
      then ([], handler_catch env (Inl (TypeError (ReadOfNullish event (js ''Records'')))))
      else if first_record_from event (js ''aws:sqs'')
      then (case handleSqsEvent bh event of (calls, outcome) \<Rightarrow> (calls, handler_catch env outcome))
      else if first_record_from event (js ''aws:s3'')
      then (case handleS3Event bh event of (calls, outcome) \<Rightarrow> (calls, handler_catch env outcome))
      else handleApiGatewayEvent env event)"

section \<open>Concrete inputs\<close>

text \<open>A response of the model in the content-array envelope, its text item a recipe in
  JSON, and the collaborators around it.\<close>

definition json_quote :: "jstring \<Rightarrow> jstring" where
  "json_quote s = [34] @ concat (map (\<lambda>c. if c = 34 then [92, 34] else [c]) s) @ [34]"

definition claude_body :: "jstring \<Rightarrow> jstring" where
  \<open>claude_body text = js ''{"content":[{"type":"text","text":'' @ json_quote text @ js ''}]}''\<close>

definition claude_response :: "jstring \<Rightarrow> jv" where
  "claude_response text =
     JObj [(js ''content'', JArr [JObj [(js ''type'', JStr (js ''text'')), (js ''text'', JStr text)]] [])]"

definition salade_json :: jstring where
  \<open>salade_json = js ''{"title":"Salade verte","servings":0,"ingredients":[{"name":"laitue","quantity":0,"unit":"Piece"}],"steps":[{"order":0,"text":"Laver"}]}''\<close>

definition salade_parsed :: jv where
  "salade_parsed =
     JObj [(js ''title'', JStr (js ''Salade verte'')),
           (js ''servings'', JNum 0),
           (js ''ingredients'',
              JArr [JObj [(js ''name'', JStr (js ''laitue'')), (js ''quantity'', JNum 0),
                          (js ''unit'', JStr (js ''Piece''))]] []),
           (js ''steps'', JArr [JObj [(js ''order'', JNum 0), (js ''text'', JStr (js ''Laver''))]] [])]"

definition salade_recipe :: jv where
  "salade_recipe =
     JObj [(js ''title'', JStr (js ''Salade verte'')),
           (js ''servings'', JNum 4),
           (js ''ingredients'',
              JArr [JObj [(js ''name'', JStr (js ''laitue'')), (js ''quantity'', JNum 1),
                          (js ''unit'', JStr (js ''piece''))]] []),
           (js ''steps'', JArr [JObj [(js ''order'', JNum 1), (js ''text'', JStr (js ''Laver''))]] []),
           (js ''tags'', JArr [] [])]"

definition soupe_json :: jstring where
  \<open>soupe_json = js ''{"title":"Soupe","servings":-2,"ingredients":[{"name":"eau","quantity":"deux","unit":"L"}],"steps":[],"tags":"soupe"}''\<close>

definition soupe_parsed :: jv where
  "soupe_parsed =
     JObj [(js ''title'', JStr (js ''Soupe'')),
           (js ''servings'', JNum (- 2)),
           (js ''ingredients'',
              JArr [JObj [(js ''name'', JStr (js ''eau'')), (js ''quantity'', JStr (js ''deux'')),
                          (js ''unit'', JStr (js ''L''))]] []),
           (js ''steps'', JArr [] []),
           (js ''tags'', JStr (js ''soupe''))]"

definition JSON_parse0 :: "jv \<Rightarrow> jv option" where
  \<open>JSON_parse0 v =
     (if v = JStr salade_json then Some salade_parsed
      else if v = JStr soupe_json then Some soupe_parsed
      else if v = JStr (claude_body salade_json) then Some (claude_response salade_json)
      else if v = JStr (claude_body soupe_json) then Some (claude_response soupe_json)
      else if v = JStr (claude_body (js ''Voici la recette'')) then Some (claude_response (js ''Voici la recette''))
      else if v = JStr (js ''{"content":[]}'') then Some (JObj [(js ''content'', JArr [] [])])
      else None)\<close>

definition test_env :: "jstring \<Rightarrow> (jserror + jv) \<Rightarrow> jstring \<Rightarrow> env" where
  "test_env decoded submitted page =
     \<lparr>JSON_parse = JSON_parse0,
      URL_protocol = (\<lambda>url. if url = JStr (js ''https://example.org/salade'')
                             then Some (js ''https:'') else None),
      ToNumber = (\<lambda>v. None),
      String_toLowerCase = map ascii_lower,
      engine_message = (\<lambda>e. js ''TypeError''),
      getConfigValue_MODEL_ID = Inr (js ''anthropic.claude-3-sonnet-20240229-v1:0''),
      AWS_REGION = None,
      bedrockClient_send = (\<lambda>modelId recipeText. Inr decoded),
      sendRecipeToAPI = (\<lambda>recipe. submitted),
      fetchWebpage = (\<lambda>url. Inr page),
      now = js ''2026-01-16T10:30:00.000Z''\<rparr>"

definition api_down :: "jserror + jv" where
  "api_down = Inl (Error (js ''API returned error status 500: {}''))"

text \<open>Probes that both report unavailable, a job-completion batch and stand-ins for the two
  batch handlers.\<close>

definition both_down :: probes where
  "both_down =
     \<lparr>JSON_parse = JSON_parse0, URL_protocol = (\<lambda>url. None), ToNumber = (\<lambda>v. None),
      String_toLowerCase = map ascii_lower, engine_message = (\<lambda>e. js ''TypeError''),
      bedrock_probe = Inr False, api_probe = Inr False,
      probe_time = js ''2026-01-16T10:30:00.000Z''\<rparr>"

definition sqs_event :: jv where
  "sqs_event =
     JObj [(js ''Records'',
        JArr [JObj [(js ''messageId'', JStr (js ''m-1'')), (js ''eventSource'', JStr (js ''aws:sqs''))],
              JObj [(js ''messageId'', JStr (js ''m-2'')), (js ''eventSource'', JStr (js ''aws:s3''))]] [])]"

definition no_batch :: batch_handlers where
  "no_batch =
     \<lparr>handleSqsEvent = (\<lambda>event. ([], Inr (successResponse (JStr (js ''SQS event processed'')) 200))),
      handleS3Event = (\<lambda>event. ([], Inr (successResponse (JStr (js ''S3 event processed'')) 202)))\<rparr>"

text \<open>What the adapter returns for the second recipe, and a direct request carrying a
  literal text.\<close>

definition soupe_recipe :: jv where
  "soupe_recipe =
     JObj [(js ''title'', JStr (js ''Soupe'')),
           (js ''servings'', JNum (- 2)),
           (js ''ingredients'',
              JArr [JObj [(js ''name'', JStr (js ''eau'')), (js ''quantity'', JStr (js ''deux'')),
                          (js ''unit'', JStr (js ''l''))]] []),
           (js ''steps'', JArr [] []),
           (js ''tags'', JStr (js ''soupe''))]"

definition text_event :: "jstring \<Rightarrow> jv" where
  "text_event text = JObj [(js ''body'', JObj [(js ''recipeText'', JStr text)])]"

text \<open>A candidate recipe with a null among its ingredients.\<close>

definition null_ingredient :: jv where
  "null_ingredient =
     JObj [(js ''title'', JStr (js ''Salade verte'')), (js ''servings'', JNum 2),
           (js ''ingredients'', JArr [JNull] []), (js ''steps'', JArr [] []),
           (js ''tags'', JArr [] [])]"

text \<open>A page of 50,001 letters and the address it is fetched from.\<close>

definition long_page :: jstring where
  "long_page = replicate 50001 97"

definition salade_url :: jv where
  "salade_url = JStr (js ''https://example.org/salade'')"

text \<open>A third recipe, with truthy and falsy values side by side, in the output-message
  envelope of a Nova model, and the collaborators around it.\<close>

definition nova_body :: "jstring \<Rightarrow> jstring" where
  \<open>nova_body text =
     js ''{"output":{"message":{"content":[{"text":'' @ json_quote text @ js ''}]}}}''\<close>

definition nova_response :: "jstring \<Rightarrow> jv" where
  "nova_response text =
     JObj [(js ''output'',
        JObj [(js ''message'',
           JObj [(js ''content'', JArr [JObj [(js ''text'', JStr text)]] [])])])]"

definition gratin_json :: jstring where
  \<open>gratin_json = js ''{"title":"Gratin","servings":6,"ingredients":[{"name":"pommes de terre","quantity":0,"unit":"KG"},{"name":"creme","quantity":25}],"steps":[{"order":0,"text":"Eplucher"},{"order":7,"text":"Cuire"},{"text":"Servir"}],"tags":["four"]}''\<close>

definition gratin_parsed :: jv where
  "gratin_parsed =
     JObj [(js ''title'', JStr (js ''Gratin'')),
           (js ''servings'', JNum 6),
           (js ''ingredients'',
              JArr [JObj [(js ''name'', JStr (js ''pommes de terre'')), (js ''quantity'', JNum 0),
                          (js ''unit'', JStr (js ''KG''))],
                    JObj [(js ''name'', JStr (js ''creme'')), (js ''quantity'', JNum 25)]] []),
           (js ''steps'',
              JArr [JObj [(js ''order'', JNum 0), (js ''text'', JStr (js ''Eplucher''))],
                    JObj [(js ''order'', JNum 7), (js ''text'', JStr (js ''Cuire''))],
                    JObj [(js ''text'', JStr (js ''Servir''))]] []),
           (js ''tags'', JArr [JStr (js ''four'')] [])]"

definition gratin_recipe :: jv where
  "gratin_recipe =
     JObj [(js ''title'', JStr (js ''Gratin'')),
           (js ''servings'', JNum 6),
           (js ''ingredients'',
              JArr [JObj [(js ''name'', JStr (js ''pommes de terre'')), (js ''quantity'', JNum 1),
                          (js ''unit'', JStr (js ''kg''))],
                    JObj [(js ''name'', JStr (js ''creme'')), (js ''quantity'', JNum 25),
                          (js ''unit'', JStr [])]] []),
           (js ''steps'',
              JArr [JObj [(js ''order'', JNum 1), (js ''text'', JStr (js ''Eplucher''))],
                    JObj [(js ''order'', JNum 7), (js ''text'', JStr (js ''Cuire''))],
                    JObj [(js ''order'', JNum 3), (js ''text'', JStr (js ''Servir''))]] []),
           (js ''tags'', JArr [JStr (js ''four'')] [])]"

definition gratin_env :: env where
  "gratin_env =
     (test_env (nova_body gratin_json) api_down [])
       \<lparr>JSON_parse := (\<lambda>v. if v = JStr gratin_json then Some gratin_parsed
                            else if v = JStr (nova_body gratin_json)
                            then Some (nova_response gratin_json)
                            else None),
        getConfigValue_MODEL_ID := Inr (js ''amazon.nova-2-lite-v1:0''),
        AWS_REGION := Some (js ''eu-west-3'')\<rparr>"

section \<open>Predicates of the claims\<close>

text \<open>A response of the direct-request path: a success envelope with status 200 or an error
  envelope with one of the error statuses.\<close>

definition envelope :: "response \<Rightarrow> bool" where
  "envelope r =
     ((\<exists>d. r = successResponse d 200)
      \<or> (\<exists>m c ds. r = errorResponse m c ds \<and> c \<in> {400, 422, 500, 502, 503}))"

text \<open>A positive number; a value of type number.\<close>

fun positive_number :: "jv \<Rightarrow> bool" where
  "positive_number (JNum r) = (r > 0)"
| "positive_number v = False"

definition numeric :: "jv \<Rightarrow> bool" where
  "numeric v = (typeof v = ''number'')"

text \<open>The rules of the validator as the specification words them: each is checked on its
  own and contributes its own messages.\<close>

definition title_rule :: "jv \<Rightarrow> jstring list" where
  "title_rule c =
     (if truthy (get_prop c (js ''title'')) \<and> typeof (get_prop c (js ''title'')) = ''string''
      then [] else [js ''Title is required and must be a string''])"

definition servings_rule :: "jv \<Rightarrow> jstring list" where
  "servings_rule c =
     (if truthy (get_prop c (js ''servings'')) \<and> typeof (get_prop c (js ''servings'')) = ''number''
      then [] else [js ''Servings is required and must be a number''])"

definition ingredient_rules :: "nat \<times> jv \<Rightarrow> jstring list" where
  "ingredient_rules p =
     (case p of (i, x) \<Rightarrow>
        (if truthy (get_prop x (js ''name'')) \<and> typeof (get_prop x (js ''name'')) = ''string''
         then [] else [js ''Ingredient '' @ show_nat i @ js '': name is required and must be a string''])
        @ (if typeof (get_prop x (js ''quantity'')) = ''number''
           then [] else [js ''Ingredient '' @ show_nat i @ js '': quantity must be a number''])
        @ (if truthy (get_prop x (js ''unit'')) \<and> typeof (get_prop x (js ''unit'')) = ''string''
           then [] else [js ''Ingredient '' @ show_nat i @ js '': unit is required and must be a string'']))"

definition ingredients_rule :: "jv \<Rightarrow> jstring list" where
  "ingredients_rule c =
     (if isArray (get_prop c (js ''ingredients''))
      then concat (map ingredient_rules (enumerate 0 (elements (get_prop c (js ''ingredients'')))))
      else [js ''Ingredients must be an array''])"

definition step_rules :: "nat \<times> jv \<Rightarrow> jstring list" where
  "step_rules p =
     (case p of (i, x) \<Rightarrow>
        (if typeof (get_prop x (js ''order'')) = ''number''
         then [] else [js ''Step '' @ show_nat i @ js '': order must be a number''])
        @ (if truthy (get_prop x (js ''text'')) \<and> typeof (get_prop x (js ''text'')) = ''string''
           then [] else [js ''Step '' @ show_nat i @ js '': text is required and must be a string'']))"

definition steps_rule :: "jv \<Rightarrow> jstring list" where
  "steps_rule c =
     (if isArray (get_prop c (js ''steps''))
      then concat (map step_rules (enumerate 0 (elements (get_prop c (js ''steps'')))))
      else [js ''Steps must be an array''])"

definition tags_rule :: "jv \<Rightarrow> jstring list" where
  "tags_rule c = (if isArray (get_prop c (js ''tags'')) then [] else [js ''Tags must be an array''])"

definition rule_errors :: "jv \<Rightarrow> jstring list" where
  "rule_errors c = title_rule c @ servings_rule c @ ingredients_rule c @ steps_rule c @ tags_rule c"

text \<open>
  What the white-space stages establish and leave unchanged: after a line feed, the run of
  white space that follows has no line feed beyond its first place; there is no tab and no
  two adjacent spaces. \<open>strip_end\<close> is the second half of \<^verbatim>\<open>trim\<close>.
\<close>

fun gaps_ok :: "jstring \<Rightarrow> bool" where
  "gaps_ok [] = True"
| "gaps_ok (c # s) = ((c = 10 \<longrightarrow> 10 \<notin> set (tl (takeWhile is_space s))) \<and> gaps_ok s)"

fun blanks_ok :: "jstring \<Rightarrow> bool" where
  "blanks_ok [] = True"
| "blanks_ok (c # s) = (c \<noteq> 9 \<and> (c = 32 \<longrightarrow> s = [] \<or> hd s \<noteq> 32) \<and> blanks_ok s)"

definition strip_end :: "jstring \<Rightarrow> jstring" where
  "strip_end t = rev (dropWhile is_space (rev t))"

section \<open>Properties of the normalisation\<close>

lemma map_of_assign: "map_of (assign ps k x) k' = (if k' = k then Some x else map_of ps k')"
  by (induction ps) auto

lemma get_prop_set_prop:
  "set_prop v k x = Inr v' \<Longrightarrow> get_prop v' k' = (if k' = k then x else get_prop v k')"
  by (cases v) (auto simp: get_prop_def map_of_assign)

lemma map_ingredients_length:
  "map_ingredients rt xs = Inr ys \<Longrightarrow> length ys = length xs"
  by (induction xs arbitrary: ys) (auto simp: and_then_def split: sum.splits)

lemma map_ingredients_nth:
  "map_ingredients rt xs = Inr ys \<Longrightarrow> i < length xs \<Longrightarrow> map_ingredient rt (xs ! i) = Inr (ys ! i)"
proof (induction xs arbitrary: ys i)
  case Nil
  then show ?case by simp
next
  case (Cons x xs)
  then show ?case
    by (cases i) (auto simp: and_then_def split: sum.splits)
qed

lemma map_steps_length:
  "map_steps xs n = Inr ys \<Longrightarrow> length ys = length xs"
  by (induction xs arbitrary: ys n) (auto simp: and_then_def Let_def split: sum.splits if_splits)

lemma map_steps_nth:
  "map_steps xs n = Inr ys \<Longrightarrow> i < length xs \<Longrightarrow>
     \<not> nullish (xs ! i) \<and>
     ys ! i = JObj [(js ''order'', if truthy (get_prop (xs ! i) (js ''order''))
                                  then get_prop (xs ! i) (js ''order'') else JNum (of_nat (n + i + 1))),
                    (js ''text'', get_prop (xs ! i) (js ''text''))]"
proof (induction xs arbitrary: ys i n)
  case Nil
  then show ?case by simp
next
  case (Cons x xs)
  show ?case
  proof (cases i)
    case 0
    with Cons.prems show ?thesis
      by (auto simp: and_then_def Let_def split: sum.splits if_splits)
  next
    case (Suc j)
    from Cons.prems obtain zs where zs: "map_steps xs (Suc n) = Inr zs" and ys: "tl ys = zs" "ys \<noteq> []"
      by (auto simp: and_then_def Let_def split: sum.splits if_splits)
    from Cons.IH [OF zs, of j] Cons.prems Suc ys show ?thesis
      by (cases ys) auto
  qed
qed

lemma map_ingredient_result:
  "map_ingredient rt x = Inr y \<Longrightarrow>
     \<exists>u. (if truthy (get_prop x (js ''unit'')) then get_prop x (js ''unit'') else JStr []) = JStr u
       \<and> y = JObj [(js ''name'', get_prop x (js ''name'')),
                   (js ''quantity'', if truthy (get_prop x (js ''quantity''))
                                     then get_prop x (js ''quantity'') else JNum 1),
                   (js ''unit'', JStr (String_toLowerCase rt u))]"
  by (auto simp: map_ingredient_def Let_def split: if_splits jv.splits)


lemma and_then_Inr: "and_then m f = Inr y \<Longrightarrow> \<exists>x. m = Inr x \<and> f x = Inr y"
  by (cases m) (simp_all add: and_then_def)

lemma apply_defaults_steps:
  assumes "apply_defaults rt recipe = Inr out"
  obtains r1 r2 r3 where
    "(if \<not> truthy (get_prop recipe (js ''servings''))
      then set_prop recipe (js ''servings'') (JNum 4) else Inr recipe) = Inr r1"
    "(if truthy (get_prop r1 (js ''ingredients'')) \<and> isArray (get_prop r1 (js ''ingredients''))
      then and_then (map_ingredients rt (elements (get_prop r1 (js ''ingredients''))))
             (\<lambda>xs. set_prop r1 (js ''ingredients'') (JArr xs []))
      else Inr r1) = Inr r2"
    "(if truthy (get_prop r2 (js ''steps'')) \<and> isArray (get_prop r2 (js ''steps''))
      then and_then (map_steps (elements (get_prop r2 (js ''steps''))) 0)
             (\<lambda>xs. set_prop r2 (js ''steps'') (JArr xs []))
      else Inr r2) = Inr r3"
    "(if \<not> truthy (get_prop r3 (js ''tags''))
      then set_prop r3 (js ''tags'') (JArr [] []) else Inr r3) = Inr out"
    "\<not> nullish recipe"
proof -
  from assms have n: "\<not> nullish recipe"
    by (auto simp: apply_defaults_def split: if_splits)
  with assms have a: "and_then (if \<not> truthy (get_prop recipe (js ''servings''))
                  then set_prop recipe (js ''servings'') (JNum 4) else Inr recipe) (\<lambda>recipe.
        and_then (if truthy (get_prop recipe (js ''ingredients''))
                     \<and> isArray (get_prop recipe (js ''ingredients''))
                  then and_then (map_ingredients rt (elements (get_prop recipe (js ''ingredients''))))
                         (\<lambda>xs. set_prop recipe (js ''ingredients'') (JArr xs []))
                  else Inr recipe) (\<lambda>recipe.
        and_then (if truthy (get_prop recipe (js ''steps''))
                     \<and> isArray (get_prop recipe (js ''steps''))
                  then and_then (map_steps (elements (get_prop recipe (js ''steps''))) 0)
                         (\<lambda>xs. set_prop recipe (js ''steps'') (JArr xs []))
                  else Inr recipe) (\<lambda>recipe.
        if \<not> truthy (get_prop recipe (js ''tags''))
        then set_prop recipe (js ''tags'') (JArr [] []) else Inr recipe))) = Inr out"
    by (simp add: apply_defaults_def)
  from and_then_Inr [OF a] obtain r1 where r1: "(if \<not> truthy (get_prop recipe (js ''servings''))
      then set_prop recipe (js ''servings'') (JNum 4) else Inr recipe) = Inr r1"
    and b: "and_then (if truthy (get_prop r1 (js ''ingredients''))
                     \<and> isArray (get_prop r1 (js ''ingredients''))
                  then and_then (map_ingredients rt (elements (get_prop r1 (js ''ingredients''))))
                         (\<lambda>xs. set_prop r1 (js ''ingredients'') (JArr xs []))
                  else Inr r1) (\<lambda>recipe.
        and_then (if truthy (get_prop recipe (js ''steps''))
                     \<and> isArray (get_prop recipe (js ''steps''))
                  then and_then (map_steps (elements (get_prop recipe (js ''steps''))) 0)
                         (\<lambda>xs. set_prop recipe (js ''steps'') (JArr xs []))
                  else Inr recipe) (\<lambda>recipe.
        if \<not> truthy (get_prop recipe (js ''tags''))
        then set_prop recipe (js ''tags'') (JArr [] []) else Inr recipe)) = Inr out"
    by blast
  from and_then_Inr [OF b] obtain r2 where r2: "(if truthy (get_prop r1 (js ''ingredients''))
                     \<and> isArray (get_prop r1 (js ''ingredients''))
                  then and_then (map_ingredients rt (elements (get_prop r1 (js ''ingredients''))))
                         (\<lambda>xs. set_prop r1 (js ''ingredients'') (JArr xs []))
                  else Inr r1) = Inr r2"
    and c: "and_then (if truthy (get_prop r2 (js ''steps''))
                     \<and> isArray (get_prop r2 (js ''steps''))
                  then and_then (map_steps (elements (get_prop r2 (js ''steps''))) 0)
                         (\<lambda>xs. set_prop r2 (js ''steps'') (JArr xs []))
                  else Inr r2) (\<lambda>recipe.
        if \<not> truthy (get_prop recipe (js ''tags''))
        then set_prop recipe (js ''tags'') (JArr [] []) else Inr recipe) = Inr out"
    by blast
  from and_then_Inr [OF c] obtain r3 where r3: "(if truthy (get_prop r2 (js ''steps''))
                     \<and> isArray (get_prop r2 (js ''steps''))
                  then and_then (map_steps (elements (get_prop r2 (js ''steps''))) 0)
                         (\<lambda>xs. set_prop r2 (js ''steps'') (JArr xs []))
                  else Inr r2) = Inr r3"
    and d: "(if \<not> truthy (get_prop r3 (js ''tags''))
        then set_prop r3 (js ''tags'') (JArr [] []) else Inr r3) = Inr out"
    by blast
  from r1 r2 r3 d n that show thesis by blast
qed

lemma keys_distinct:
  "js ''servings'' \<noteq> js ''ingredients''" "js ''servings'' \<noteq> js ''steps''"
  "js ''servings'' \<noteq> js ''tags''" "js ''ingredients'' \<noteq> js ''steps''"
  "js ''ingredients'' \<noteq> js ''tags''" "js ''steps'' \<noteq> js ''tags''"
  "js ''ingredients'' \<noteq> js ''servings''" "js ''steps'' \<noteq> js ''servings''"
  "js ''tags'' \<noteq> js ''servings''" "js ''steps'' \<noteq> js ''ingredients''"
  "js ''tags'' \<noteq> js ''ingredients''" "js ''tags'' \<noteq> js ''steps''"
  by (simp_all add: js_def)

lemma step_get:
  assumes "(if c then and_then m (\<lambda>xs. set_prop r k (JArr xs [])) else Inr r) = Inr r'"
  shows "get_prop r' k' =
           (if k' = k \<and> c then (case m of Inr xs \<Rightarrow> JArr xs [] | Inl e \<Rightarrow> JUndefined)
            else get_prop r k')"
    and "c \<Longrightarrow> \<exists>xs. m = Inr xs"
  using assms
  by (auto simp: and_then_def split: if_splits sum.splits dest: get_prop_set_prop)

lemma default_get:
  assumes "(if c then set_prop r k x else Inr r) = Inr r'"
  shows "get_prop r' k' = (if k' = k \<and> c then x else get_prop r k')"
  using assms by (auto split: if_splits dest: get_prop_set_prop)

lemma apply_defaults_result:
  assumes "apply_defaults rt recipe = Inr out"
  shows "get_prop out (js ''servings'') =
           (if truthy (get_prop recipe (js ''servings''))
            then get_prop recipe (js ''servings'') else JNum 4)"
    and "get_prop out (js ''tags'') =
           (if truthy (get_prop recipe (js ''tags''))
            then get_prop recipe (js ''tags'') else JArr [] [])"
    and "isArray (get_prop recipe (js ''ingredients'')) \<Longrightarrow>
           \<exists>ys. map_ingredients rt (elements (get_prop recipe (js ''ingredients''))) = Inr ys
                \<and> get_prop out (js ''ingredients'') = JArr ys []"
    and "isArray (get_prop recipe (js ''steps'')) \<Longrightarrow>
           \<exists>ys. map_steps (elements (get_prop recipe (js ''steps''))) 0 = Inr ys
                \<and> get_prop out (js ''steps'') = JArr ys []"
    and "\<not> isArray (get_prop recipe (js ''ingredients'')) \<Longrightarrow>
           get_prop out (js ''ingredients'') = get_prop recipe (js ''ingredients'')"
    and "\<not> isArray (get_prop recipe (js ''steps'')) \<Longrightarrow>
           get_prop out (js ''steps'') = get_prop recipe (js ''steps'')"
proof -
  from assms obtain r1 r2 r3 where
    s1: "(if \<not> truthy (get_prop recipe (js ''servings''))
      then set_prop recipe (js ''servings'') (JNum 4) else Inr recipe) = Inr r1" and
    s2: "(if truthy (get_prop r1 (js ''ingredients'')) \<and> isArray (get_prop r1 (js ''ingredients''))
      then and_then (map_ingredients rt (elements (get_prop r1 (js ''ingredients''))))
             (\<lambda>xs. set_prop r1 (js ''ingredients'') (JArr xs []))
      else Inr r1) = Inr r2" and
    s3: "(if truthy (get_prop r2 (js ''steps'')) \<and> isArray (get_prop r2 (js ''steps''))
      then and_then (map_steps (elements (get_prop r2 (js ''steps''))) 0)
             (\<lambda>xs. set_prop r2 (js ''steps'') (JArr xs []))
      else Inr r2) = Inr r3" and
    s4: "(if \<not> truthy (get_prop r3 (js ''tags''))
      then set_prop r3 (js ''tags'') (JArr [] []) else Inr r3) = Inr out"
    by (rule apply_defaults_steps)
  note g1 = default_get [OF s1] and g2 = step_get [OF s2] and g3 = step_get [OF s3]
    and g4 = default_get [OF s4]
  have arr: "truthy v" if "isArray v" for v using that by (cases v) auto
  show "get_prop out (js ''servings'') =
           (if truthy (get_prop recipe (js ''servings''))
            then get_prop recipe (js ''servings'') else JNum 4)"
    by (simp add: g4 g3(1) g2(1) g1 keys_distinct)
  show "get_prop out (js ''tags'') =
           (if truthy (get_prop recipe (js ''tags''))
            then get_prop recipe (js ''tags'') else JArr [] [])"
    by (simp add: g4 g3(1) g2(1) g1 keys_distinct)
  show "\<exists>ys. map_ingredients rt (elements (get_prop recipe (js ''ingredients''))) = Inr ys
                \<and> get_prop out (js ''ingredients'') = JArr ys []"
    if "isArray (get_prop recipe (js ''ingredients''))"
    using that g2(2) arr [OF that]
    by (auto simp add: g4 g3(1) g2(1) g1 keys_distinct)
  show "\<exists>ys. map_steps (elements (get_prop recipe (js ''steps''))) 0 = Inr ys
                \<and> get_prop out (js ''steps'') = JArr ys []"
    if "isArray (get_prop recipe (js ''steps''))"
    using that g3(2) arr [OF that]
    by (auto simp add: g4 g3(1) g2(1) g1 keys_distinct)
  show "get_prop out (js ''ingredients'') = get_prop recipe (js ''ingredients'')"
    if "\<not> isArray (get_prop recipe (js ''ingredients''))"
    using that by (simp add: g4 g3(1) g2(1) g1 keys_distinct)
  show "get_prop out (js ''steps'') = get_prop recipe (js ''steps'')"
    if "\<not> isArray (get_prop recipe (js ''steps''))"
    using that by (simp add: g4 g3(1) g2(1) g1 keys_distinct)
qed

section \<open>Evaluation on the concrete inputs\<close>

lemma parse_salade: "JSON_parse0 (JStr salade_json) = Some salade_parsed"
  by (simp add: JSON_parse0_def)

lemma parse_claude_salade: "JSON_parse0 (JStr (claude_body salade_json)) = Some (claude_response salade_json)"
  by (simp add: JSON_parse0_def claude_body_def salade_json_def soupe_json_def js_def json_quote_def)

lemma defaults_salade: "apply_defaults (test_env d s p) salade_parsed = Inr salade_recipe"
  by (simp add: apply_defaults_def salade_parsed_def salade_recipe_def and_then_def get_prop_def
      map_ingredient_def test_env_def ascii_lower_def js_def)

lemma model_id: "inference_profile None (js ''anthropic.claude-3-sonnet-20240229-v1:0'') = js ''anthropic.claude-3-sonnet-20240229-v1:0''"
  by (simp add: inference_profile_def js_def)

lemma extract_salade:
  "extractRecipe (test_env (claude_body salade_json) s p) (JStr (js ''Salade verte: laitue. Laver.''))
     = ([InvokeModel (js ''anthropic.claude-3-sonnet-20240229-v1:0'') (JStr (js ''Salade verte: laitue. Laver.''))],
        Inr salade_recipe)"
proof -
  have t: "find_textContent (claude_response salade_json)
             = Inr (JObj [(js ''type'', JStr (js ''text'')), (js ''text'', JStr salade_json)])"
    by (simp add: find_textContent_def claude_response_def get_prop_def js_def)
  have n: "salade_json \<noteq> []" by (simp add: salade_json_def js_def)
  have "extractRecipe_try (test_env (claude_body salade_json) s p) m t = Inr salade_recipe" for m t
    using defaults_salade [of "claude_body salade_json" s p]
    by (simp add: extractRecipe_try_def and_then_def t get_prop_def n
        test_env_def parse_claude_salade parse_salade js_def)
  then show ?thesis
    using model_id
    by (simp add: extractRecipe_def test_env_def) (simp add: js_def)
qed

lemma validate_salade: "validateRecipe salade_recipe = Inr \<lparr>valid = True, errors = []\<rparr>"
  by (simp add: validateRecipe_def salade_recipe_def get_prop_def js_def)


text \<open>
  C1. When the backend extraction of a non-blank text succeeds and the extracted recipe
  passes validation, a failing downstream submission does not make
  \<^verbatim>\<open>extractRecipeFromText\<close> throw: it returns a result whose \<open>recipe\<close> is the adapter's
  recipe unchanged and whose \<open>apiResponse\<close> is \<^verbatim>\<open>{error: message, sent: false}\<close>.
\<close>

theorem downstream_failure_is_captured:
  assumes "\<not> blank_input (JStr text)"
    and "extractRecipe env (JStr text) = (calls, Inr recipe)"
    and "validateRecipe recipe = Inr v" and "valid v"
    and "sendRecipeToAPI env recipe = Inl apiError"
  shows "\<exists>modelId. getConfigValue_MODEL_ID env = Inr modelId \<and>
           extractRecipeFromText env (JStr text) =
             (calls @ [SendRecipe recipe],
              Inr (JObj [(js ''recipe'', recipe),
                         (js ''apiResponse'',
                            JObj [(js ''error'', JStr (error_message env apiError)),
                                  (js ''sent'', JBool False)]),
                         (js ''metadata'',
                            JObj [(js ''extractedAt'', JStr (now env)),
                                  (js ''modelUsed'', JStr modelId)])]))"
proof -
  from assms(2) obtain modelId where m: "getConfigValue_MODEL_ID env = Inr modelId"
    by (cases "getConfigValue_MODEL_ID env") (auto simp: extractRecipe_def)
  show ?thesis
    using assms m by (simp add: extractRecipeFromText_def)
qed

theorem downstream_failure_is_captured_witness:
  "\<not> blank_input (JStr (js ''Salade verte: laitue. Laver.''))
   \<and> snd (extractRecipe (test_env (claude_body salade_json) api_down [])
            (JStr (js ''Salade verte: laitue. Laver.''))) = Inr salade_recipe
   \<and> validateRecipe salade_recipe = Inr \<lparr>valid = True, errors = []\<rparr>
   \<and> sendRecipeToAPI (test_env (claude_body salade_json) api_down []) salade_recipe = api_down
   \<and> snd (extractRecipeFromText (test_env (claude_body salade_json) api_down [])
            (JStr (js ''Salade verte: laitue. Laver.''))) =
       Inr (JObj [(js ''recipe'', salade_recipe),
                  (js ''apiResponse'',
                     JObj [(js ''error'', JStr (js ''API returned error status 500: {}'')),
                           (js ''sent'', JBool False)]),
                  (js ''metadata'',
                     JObj [(js ''extractedAt'', JStr (js ''2026-01-16T10:30:00.000Z'')),
                           (js ''modelUsed'', JStr (js ''anthropic.claude-3-sonnet-20240229-v1:0''))])])"
proof -
  have b: "\<not> blank_input (JStr (js ''Salade verte: laitue. Laver.''))"
    by (simp add: js_def trim_def is_space_def)
  have s: "sendRecipeToAPI (test_env (claude_body salade_json) api_down []) salade_recipe
             = Inl (Error (js ''API returned error status 500: {}''))"
    by (simp add: test_env_def api_down_def)
  have v: "valid \<lparr>valid = True, errors = []\<rparr>" by simp
  from downstream_failure_is_captured [OF b extract_salade validate_salade v s]
  show ?thesis
    using b extract_salade [of api_down "[]"] validate_salade s
    by (auto simp: test_env_def api_down_def)
qed

section \<open>The health check\<close>

text \<open>
  C4, as stated, fails: with both probes reporting unavailable, which is not a partial
  availability, the status is still \<open>degraded\<close>.
\<close>

theorem healthCheck_both_down_counterexample:
  "bedrock_probe both_down = Inr False \<and> api_probe both_down = Inr False
   \<and> get_prop (healthCheck both_down) (js ''status'') = JStr (js ''degraded'')"
  by (simp add: both_down_def healthCheck_def get_prop_def js_def)

text \<open>
  C4, amended. \<^verbatim>\<open>healthCheck\<close> returns \<open>healthy\<close> if and only if both probes report
  available; \<open>degraded\<close> if and only if both probes return and at least one of them
  reports unavailable (both unavailable included); \<open>unhealthy\<close> if and only if a probe
  throws.
\<close>

theorem healthCheck_status:
  "(get_prop (healthCheck p) (js ''status'') = JStr (js ''healthy'')
      \<longleftrightarrow> bedrock_probe p = Inr True \<and> api_probe p = Inr True)
   \<and> (get_prop (healthCheck p) (js ''status'') = JStr (js ''degraded'')
      \<longleftrightarrow> (\<exists>b a. bedrock_probe p = Inr b \<and> api_probe p = Inr a \<and> (b = False \<or> a = False)))
   \<and> (get_prop (healthCheck p) (js ''status'') = JStr (js ''unhealthy'')
      \<longleftrightarrow> (\<exists>e. bedrock_probe p = Inl e) \<or> (\<exists>b e. bedrock_probe p = Inr b \<and> api_probe p = Inl e))"
  by (auto simp: healthCheck_def unhealthy_def get_prop_def js_def split: sum.splits)

theorem healthCheck_status_witness:
  "get_prop (healthCheck (both_down\<lparr>api_probe := Inr True\<rparr>)) (js ''status'') = JStr (js ''degraded'')
   \<and> get_prop (healthCheck (both_down\<lparr>bedrock_probe := Inr True, api_probe := Inr True\<rparr>)) (js ''status'')
        = JStr (js ''healthy'')
   \<and> get_prop (healthCheck (both_down\<lparr>bedrock_probe := Inl (Error (js ''probe failed''))\<rparr>)) (js ''status'')
        = JStr (js ''unhealthy'')"
  using healthCheck_status [of "both_down\<lparr>api_probe := Inr True\<rparr>"]
    healthCheck_status [of "both_down\<lparr>bedrock_probe := Inr True, api_probe := Inr True\<rparr>"]
    healthCheck_status [of "both_down\<lparr>bedrock_probe := Inl (Error (js ''probe failed''))\<rparr>"]
  by (simp add: both_down_def healthCheck_def unhealthy_def get_prop_def js_def)

section \<open>The direct-request path\<close>

lemma envelope_success: "envelope (successResponse d 200)"
  by (auto simp: envelope_def)

lemma envelope_error: "c \<in> {400, 422, 500, 502, 503} \<Longrightarrow> envelope (errorResponse m c ds)"
  unfolding envelope_def by blast

lemma api_catch_envelope: "envelope (api_catch env e)"
  by (simp add: api_catch_def envelope_error)

lemma url_catch_envelope: "url_catch env e = Inr r \<Longrightarrow> envelope r"
  by (auto simp: url_catch_def envelope_error split: if_splits)

lemma handleUrlExtraction_envelope: "handleUrlExtraction env url = (calls, Inr r) \<Longrightarrow> envelope r"
  by (auto simp: handleUrlExtraction_def Let_def envelope_error envelope_success
      split: if_splits sum.splits prod.splits dest: url_catch_envelope)

lemma handleTextExtraction_envelope: "handleTextExtraction env t = (calls, Inr r) \<Longrightarrow> envelope r"
  by (auto simp: handleTextExtraction_def Let_def envelope_error envelope_success
      split: if_splits sum.splits prod.splits)

lemma handleApiGatewayEvent_envelope: "envelope (snd (handleApiGatewayEvent env event))"
proof (cases "request_body env event")
  case None
  then show ?thesis by (simp add: handleApiGatewayEvent_def envelope_error)
next
  case (Some b)
  obtain cu ou where u: "handleUrlExtraction env (get_prop b (js ''url'')) = (cu, ou)"
    by (cases "handleUrlExtraction env (get_prop b (js ''url''))")
  obtain ct ot where t: "handleTextExtraction env (get_prop b (js ''recipeText'')) = (ct, ot)"
    by (cases "handleTextExtraction env (get_prop b (js ''recipeText''))")
  have "envelope r" if "ou = Inr r" for r
    using u that handleUrlExtraction_envelope by blast
  moreover have "envelope r" if "ot = Inr r" for r
    using t that handleTextExtraction_envelope by blast
  ultimately show ?thesis
    using Some u t
    by (cases ou; cases ot) (simp_all add: handleApiGatewayEvent_def envelope_error api_catch_envelope)
qed

text \<open>
  C8. Every response of the direct-request path is built by \<^verbatim>\<open>successResponse\<close> (with
  status 200) or by \<^verbatim>\<open>errorResponse\<close> (with status 400, 422, 500, 502 or 503). Both carry
  exactly the three headers \<^verbatim>\<open>Content-Type: application/json\<close>,
  \<^verbatim>\<open>Access-Control-Allow-Origin: *\<close> and \<^verbatim>\<open>Access-Control-Allow-Credentials: true\<close>; the body
  of the first has \<open>success\<close> true, the body of the second has \<open>success\<close> false and an
  \<open>error\<close> with its \<open>message\<close> and \<open>details\<close>.
\<close>

theorem direct_request_envelope:
  "((\<exists>d. snd (handleApiGatewayEvent env event) = successResponse d 200)
     \<or> (\<exists>m c ds. snd (handleApiGatewayEvent env event) = errorResponse m c ds
                  \<and> c \<in> {400, 422, 500, 502, 503}))
   \<and> headers (successResponse d code) =
        [(js ''Content-Type'', JStr (js ''application/json'')),
         (js ''Access-Control-Allow-Origin'', JStr (js ''*'')),
         (js ''Access-Control-Allow-Credentials'', JBool True)]
   \<and> headers (errorResponse m code ds) = headers (successResponse d code)
   \<and> get_prop (body (successResponse d code)) (js ''success'') = JBool True
   \<and> get_prop (body (errorResponse m code ds)) (js ''success'') = JBool False
   \<and> get_prop (get_prop (body (errorResponse m code ds)) (js ''error'')) (js ''message'') = JStr m
   \<and> get_prop (get_prop (body (errorResponse m code ds)) (js ''error'')) (js ''details'') = JArr ds []"
proof -
  have "envelope (snd (handleApiGatewayEvent env event))"
    by (rule handleApiGatewayEvent_envelope)
  then have a: "(\<exists>d. snd (handleApiGatewayEvent env event) = successResponse d 200)
     \<or> (\<exists>m c ds. snd (handleApiGatewayEvent env event) = errorResponse m c ds
                  \<and> c \<in> {400, 422, 500, 502, 503})"
    by (simp only: envelope_def)
  have b: "get_prop (body (successResponse d code)) (js ''success'') = JBool True"
    by (simp add: successResponse_def get_prop_def)
  have c: "get_prop (body (errorResponse m code ds)) (js ''success'') = JBool False"
    by (simp add: errorResponse_def get_prop_def)
  have d: "get_prop (get_prop (body (errorResponse m code ds)) (js ''error'')) (js ''message'') = JStr m"
    by (simp add: errorResponse_def get_prop_def js_def)
  have e: "get_prop (get_prop (body (errorResponse m code ds)) (js ''error'')) (js ''details'') = JArr ds []"
    by (simp add: errorResponse_def get_prop_def js_def)
  show ?thesis using a b c d e
    by (simp add: successResponse_def errorResponse_def)
qed

section \<open>Event classification\<close>

text \<open>
  C10. An event (an object, so neither null nor undefined) is routed on the
  \<open>eventSource\<close> of the first element of its \<open>Records\<close> alone: to the job-completion
  handler if that is \<^verbatim>\<open>aws:sqs\<close>, to the storage-upload handler if it is \<^verbatim>\<open>aws:s3\<close>, and
  to the direct-request handler otherwise; in particular when \<open>Records\<close> is an empty array
  and when the first record has no \<open>eventSource\<close>.
\<close>

theorem handler_routes_on_first_record:
  assumes "\<not> nullish event"
  shows "handler bh env event =
     (if get_prop (first_element (get_prop event (js ''Records''))) (js ''eventSource'')
           = JStr (js ''aws:sqs'')
      then (fst (handleSqsEvent bh event), handler_catch env (snd (handleSqsEvent bh event)))
      else if get_prop (first_element (get_prop event (js ''Records''))) (js ''eventSource'')
           = JStr (js ''aws:s3'')
      then (fst (handleS3Event bh event), handler_catch env (snd (handleS3Event bh event)))
      else handleApiGatewayEvent env event)
   \<and> (get_prop event (js ''Records'') = JArr [] [] \<longrightarrow>
        handler bh env event = handleApiGatewayEvent env event)
   \<and> (\<forall>r rs ps. get_prop event (js ''Records'') = JArr (r # rs) ps
          \<and> get_prop r (js ''eventSource'') = JUndefined \<longrightarrow>
        handler bh env event = handleApiGatewayEvent env event)"
proof -
  have g: "get_prop v k = JUndefined" if "nullish v" for v k
    using that by (cases v) (simp_all add: get_prop_def)
  have f: "first_element v = JUndefined" if "\<not> truthy v" for v
    using that by (cases v) (auto simp: get_prop_def)
  have h: "truthy v" if "get_prop (first_element v) k = JStr s" for v k s
    using that f [of v] g [of JUndefined k] by (cases "truthy v") auto
  have n: "\<not> nullish v" if "get_prop v k = JStr s" for v k s
    using that g [of v k] by auto
  have "first_record_from event s =
          (get_prop (first_element (get_prop event (js ''Records''))) (js ''eventSource'') = JStr s)" for s
    by (auto simp: first_record_from_def Let_def dest: h n)
  then have main: "handler bh env event =
     (if get_prop (first_element (get_prop event (js ''Records''))) (js ''eventSource'')
           = JStr (js ''aws:sqs'')
      then (fst (handleSqsEvent bh event), handler_catch env (snd (handleSqsEvent bh event)))
      else if get_prop (first_element (get_prop event (js ''Records''))) (js ''eventSource'')
           = JStr (js ''aws:s3'')
      then (fst (handleS3Event bh event), handler_catch env (snd (handleS3Event bh event)))
      else handleApiGatewayEvent env event)"
    using assms by (simp add: handler_def split: prod.splits)
  have empty: "handler bh env event = handleApiGatewayEvent env event"
    if "get_prop event (js ''Records'') = JArr [] []"
    using that by (simp add: main get_prop_def)
  have missing: "handler bh env event = handleApiGatewayEvent env event"
    if "get_prop event (js ''Records'') = JArr (r # rs) ps"
      and "get_prop r (js ''eventSource'') = JUndefined" for r rs ps
    using that by (simp add: main)
  from main empty missing show ?thesis by blast
qed


theorem handler_routes_on_first_record_witness:
  "\<not> nullish sqs_event
   \<and> handler no_batch (test_env [] api_down []) sqs_event
       = ([], successResponse (JStr (js ''SQS event processed'')) 200)
   \<and> handler no_batch (test_env [] api_down []) (JObj [(js ''Records'', JArr [] [])])
       = ([], errorResponse (js ''Missing request body'') 400 [])"
proof -
  have a: "\<not> nullish sqs_event" by (simp add: sqs_event_def)
  have b: "\<not> nullish (JObj [(js ''Records'', JArr [] [])])" by simp
  show ?thesis
    using a handler_routes_on_first_record [OF a, of no_batch "test_env [] api_down []"]
      handler_routes_on_first_record [OF b, of no_batch "test_env [] api_down []"]
    by (simp add: sqs_event_def no_batch_def get_prop_def js_def handler_catch_def
        handleApiGatewayEvent_def request_body_def)
qed

section \<open>Backend failures on the direct-request path\<close>

lemma text_event_body:
  "request_body env (text_event text) = Some (JObj [(js ''recipeText'', JStr text)])"
  by (simp add: request_body_def text_event_def get_prop_def)

lemma handleApiGatewayEvent_text:
  "handleApiGatewayEvent env (text_event text) =
     (if text = [] then ([], errorResponse (js ''Missing required parameter: url or recipeText'') 400 [])
      else case handleTextExtraction env (JStr text) of
             (calls, Inl error) \<Rightarrow> (calls, api_catch env error)
           | (calls, Inr r) \<Rightarrow> (calls, r))"
  by (simp add: handleApiGatewayEvent_def text_event_body get_prop_def js_def)

lemma includes_Bedrock1:
  "str_includes (js ''No text content found in Bedrock response'') (js ''Bedrock'')"
  by (simp add: js_def)

lemma includes_Bedrock2:
  "str_includes (js ''Failed to parse recipe JSON from Bedrock response'') (js ''Bedrock'')"
  by (simp add: js_def)

lemma includes_Bedrock3:
  "str_includes (js ''Bedrock service error: '' @ m) (js ''Bedrock'')"
  by (simp add: js_def)

text \<open>
  C3. The two failure kinds of the adapter are told apart by their messages only: when the
  envelope yields no textual content item, and when the text of that item does not parse
  as JSON, the direct-request path answers with the same status 503; the status 422 that
  \<open>api_catch\<close> has for a message with \<^verbatim>\<open>parse\<close> is never reached, because the message of
  the parse failure also contains \<^verbatim>\<open>Bedrock\<close>.
\<close>

theorem backend_failures_share_status_503:
  assumes cfg: "getConfigValue_MODEL_ID env = Inr configured"
    and tx: "\<not> blank_input (JStr text)" "length text \<le> 50000"
    and sent: "bedrockClient_send env (inference_profile (AWS_REGION env) configured) (JStr text)
                 = Inr decoded"
    and parsed: "JSON_parse env (JStr decoded) = Some responseBody"
    and found: "find_textContent responseBody = Inr textContent"
  shows "(\<not> truthy textContent \<or> \<not> truthy (get_prop textContent (js ''text'')) \<longrightarrow>
            snd (handleApiGatewayEvent env (text_event text)) =
              errorResponse (js ''AI service temporarily unavailable'') 503
                [JStr (js ''Bedrock service error: No text content found in Bedrock response'')])
       \<and> (truthy textContent \<and> truthy (get_prop textContent (js ''text''))
            \<and> JSON_parse env (get_prop textContent (js ''text'')) = None \<longrightarrow>
            snd (handleApiGatewayEvent env (text_event text)) =
              errorResponse (js ''AI service temporarily unavailable'') 503
                [JStr (js ''Bedrock service error: Failed to parse recipe JSON from Bedrock response'')])"
proof -
  let ?m = "inference_profile (AWS_REGION env) configured"
  from tx have ne: "text \<noteq> []" by auto
  have ex: "extractRecipe env (JStr text) =
              ([InvokeModel ?m (JStr text)],
               case extractRecipe_try env ?m (JStr text) of
                 Inl error \<Rightarrow> Inl (extractRecipe_catch env error) | Inr recipe \<Rightarrow> Inr recipe)"
    using cfg ne by (simp add: extractRecipe_def Let_def)
  have len: "\<not> greater_than env (js_length (JStr text)) 50000"
    using tx(2) by simp
  have out: "snd (handleApiGatewayEvent env (text_event text)) = api_catch env (controller_catch env e)"
    if "extractRecipe_try env ?m (JStr text) = Inl e'" "extractRecipe_catch env e' = e" for e e'
    using that cfg tx(1) ne len ex
    by (simp add: handleApiGatewayEvent_text handleTextExtraction_def extractRecipeFromText_def)
  have p: "extractRecipe_try env ?m (JStr text)
             = Inl (Error (js ''No text content found in Bedrock response''))"
    if "\<not> truthy textContent \<or> \<not> truthy (get_prop textContent (js ''text''))"
    using that sent parsed found by (auto simp: extractRecipe_try_def and_then_def)
  have f: "extractRecipe_try env ?m (JStr text)
             = Inl (SyntaxError (JsonSyntax (get_prop textContent (js ''text''))))"
    if "truthy textContent" "truthy (get_prop textContent (js ''text''))"
       "JSON_parse env (get_prop textContent (js ''text'')) = None"
    using that sent parsed found by (simp add: extractRecipe_try_def and_then_def)
  have c1: "extractRecipe_catch env (Error (js ''No text content found in Bedrock response''))
              = Error (js ''No text content found in Bedrock response'')"
    by (simp add: extractRecipe_catch_def js_def)
  have c2: "extractRecipe_catch env (SyntaxError x)
              = Error (js ''Failed to parse recipe JSON from Bedrock response'')" for x
    by (simp add: extractRecipe_catch_def)
  have a: "api_catch env (controller_catch env (Error m)) =
             errorResponse (js ''AI service temporarily unavailable'') 503
               [JStr (js ''Bedrock service error: '' @ m)]"
    if "str_includes m (js ''Bedrock'')" for m
    using that includes_Bedrock3 [of m] by (simp add: api_catch_def controller_catch_def)
  have j: "js ''Bedrock service error: '' @ js x = js (''Bedrock service error: '' @ x)" for x
    by (simp add: js_def)
  show ?thesis
    using out [OF p c1] out [OF f c2] a [OF includes_Bedrock1] a [OF includes_Bedrock2]
    by (simp add: j)
qed

theorem backend_failures_share_status_503_witness:
  "snd (handleApiGatewayEvent (test_env (js ''{\"content\":[]}'') api_down [])
          (text_event (js ''Salade verte: laitue. Laver.''))) =
     errorResponse (js ''AI service temporarily unavailable'') 503
       [JStr (js ''Bedrock service error: No text content found in Bedrock response'')]
   \<and> snd (handleApiGatewayEvent (test_env (claude_body (js ''Voici la recette'')) api_down [])
          (text_event (js ''Salade verte: laitue. Laver.''))) =
     errorResponse (js ''AI service temporarily unavailable'') 503
       [JStr (js ''Bedrock service error: Failed to parse recipe JSON from Bedrock response'')]"
proof -
  let ?t = "js ''Salade verte: laitue. Laver.''"
  let ?e1 = "test_env (js ''{\"content\":[]}'') api_down []"
  let ?e2 = "test_env (claude_body (js ''Voici la recette'')) api_down []"
  have b: "\<not> blank_input (JStr ?t)" by (simp add: js_def trim_def is_space_def)
  have l: "length ?t \<le> 50000" by (simp add: js_def)
  have c: "getConfigValue_MODEL_ID (test_env d s p) = Inr (js ''anthropic.claude-3-sonnet-20240229-v1:0'')"
    for d s p by (simp add: test_env_def)
  have s: "bedrockClient_send (test_env d s p) m t = Inr d" for d s p m t
    by (simp add: test_env_def)
  have p1: "JSON_parse ?e1 (JStr (js ''{\"content\":[]}'')) = Some (JObj [(js ''content'', JArr [] [])])"
    by (simp add: test_env_def JSON_parse0_def claude_body_def salade_json_def soupe_json_def
        js_def json_quote_def)
  have p2: "JSON_parse ?e2 (JStr (claude_body (js ''Voici la recette'')))
              = Some (claude_response (js ''Voici la recette''))"
    by (simp add: test_env_def JSON_parse0_def claude_body_def salade_json_def soupe_json_def
        js_def json_quote_def)
  have f1: "find_textContent (JObj [(js ''content'', JArr [] [])]) = Inr JUndefined"
    by (simp add: find_textContent_def get_prop_def js_def)
  have f2: "find_textContent (claude_response (js ''Voici la recette''))
              = Inr (JObj [(js ''type'', JStr (js ''text'')), (js ''text'', JStr (js ''Voici la recette''))])"
    by (simp add: find_textContent_def claude_response_def get_prop_def js_def)
  have n: "JSON_parse ?e2 (JStr (js ''Voici la recette'')) = None"
    by (simp add: test_env_def JSON_parse0_def claude_body_def salade_json_def soupe_json_def
        js_def json_quote_def)
  from backend_failures_share_status_503 [OF c b l s p1 f1]
    backend_failures_share_status_503 [OF c b l s p2 f2] n
  show ?thesis
    by (simp add: get_prop_def js_def)
qed


section \<open>The recipes the adapter returns\<close>

lemma extractRecipe_chain:
  assumes "extractRecipe env recipeText = (calls, Inr out)"
  shows "\<exists>configured decoded responseBody textContent recipe.
           getConfigValue_MODEL_ID env = Inr configured
           \<and> bedrockClient_send env (inference_profile (AWS_REGION env) configured) recipeText
               = Inr decoded
           \<and> JSON_parse env (JStr decoded) = Some responseBody
           \<and> find_textContent responseBody = Inr textContent
           \<and> JSON_parse env (get_prop textContent (js ''text'')) = Some recipe
           \<and> apply_defaults env recipe = Inr out"
proof -
  from assms obtain configured where c: "getConfigValue_MODEL_ID env = Inr configured"
    and t: "extractRecipe_try env (inference_profile (AWS_REGION env) configured) recipeText = Inr out"
    by (auto simp: extractRecipe_def Let_def split: sum.splits if_splits)
  from and_then_Inr [OF t [unfolded extractRecipe_try_def]] obtain decoded where
    d: "bedrockClient_send env (inference_profile (AWS_REGION env) configured) recipeText = Inr decoded"
    and t2: "and_then (case JSON_parse env (JStr decoded) of
                 None \<Rightarrow> Inl (SyntaxError (JsonSyntax (JStr decoded)))
               | Some responseBody \<Rightarrow> Inr responseBody) (\<lambda>responseBody.
     and_then (find_textContent responseBody) (\<lambda>textContent.
       if \<not> truthy textContent \<or> \<not> truthy (get_prop textContent (js ''text''))
       then Inl (Error (js ''No text content found in Bedrock response''))
       else
         and_then (case JSON_parse env (get_prop textContent (js ''text'')) of
                     None \<Rightarrow> Inl (SyntaxError (JsonSyntax (get_prop textContent (js ''text''))))
                   | Some recipe \<Rightarrow> Inr recipe)
           (apply_defaults env))) = Inr out"
    by blast
  from and_then_Inr [OF t2] obtain responseBody where
    p: "JSON_parse env (JStr decoded) = Some responseBody"
    and t3: "and_then (find_textContent responseBody) (\<lambda>textContent.
       if \<not> truthy textContent \<or> \<not> truthy (get_prop textContent (js ''text''))
       then Inl (Error (js ''No text content found in Bedrock response''))
       else
         and_then (case JSON_parse env (get_prop textContent (js ''text'')) of
                     None \<Rightarrow> Inl (SyntaxError (JsonSyntax (get_prop textContent (js ''text''))))
                   | Some recipe \<Rightarrow> Inr recipe)
           (apply_defaults env)) = Inr out"
    by (auto split: option.splits)
  from and_then_Inr [OF t3] obtain textContent where
    f: "find_textContent responseBody = Inr textContent"
    and t4: "and_then (case JSON_parse env (get_prop textContent (js ''text'')) of
                     None \<Rightarrow> Inl (SyntaxError (JsonSyntax (get_prop textContent (js ''text''))))
                   | Some recipe \<Rightarrow> Inr recipe)
           (apply_defaults env) = Inr out"
    by (auto split: if_splits)
  from and_then_Inr [OF t4] obtain recipe where
    q: "JSON_parse env (get_prop textContent (js ''text'')) = Some recipe"
    and a: "apply_defaults env recipe = Inr out"
    by (auto split: option.splits)
  from c d p f q a show ?thesis by blast
qed

lemma apply_defaults_ingredients:
  assumes "apply_defaults rt recipe = Inr out"
    and "isArray (get_prop recipe (js ''ingredients''))"
  shows "isArray (get_prop out (js ''ingredients''))"
    and "length (elements (get_prop out (js ''ingredients'')))
           = length (elements (get_prop recipe (js ''ingredients'')))"
    and "i < length (elements (get_prop recipe (js ''ingredients''))) \<Longrightarrow>
           \<exists>u. (if truthy (get_prop (elements (get_prop recipe (js ''ingredients'')) ! i) (js ''unit''))
                 then get_prop (elements (get_prop recipe (js ''ingredients'')) ! i) (js ''unit'')
                 else JStr []) = JStr u
              \<and> elements (get_prop out (js ''ingredients'')) ! i =
                  JObj [(js ''name'',
                           get_prop (elements (get_prop recipe (js ''ingredients'')) ! i) (js ''name'')),
                        (js ''quantity'',
                           if truthy (get_prop (elements (get_prop recipe (js ''ingredients'')) ! i)
                                        (js ''quantity''))
                           then get_prop (elements (get_prop recipe (js ''ingredients'')) ! i)
                                  (js ''quantity'')
                           else JNum 1),
                        (js ''unit'', JStr (String_toLowerCase rt u))]"
proof -
  from apply_defaults_result(3) [OF assms] obtain ys where
    ys: "map_ingredients rt (elements (get_prop recipe (js ''ingredients''))) = Inr ys"
    and o: "get_prop out (js ''ingredients'') = JArr ys []" by blast
  from o show "isArray (get_prop out (js ''ingredients''))" by simp
  from o map_ingredients_length [OF ys]
  show "length (elements (get_prop out (js ''ingredients'')))
           = length (elements (get_prop recipe (js ''ingredients'')))" by simp
  assume "i < length (elements (get_prop recipe (js ''ingredients'')))"
  from map_ingredient_result [OF map_ingredients_nth [OF ys this]] o
  show "\<exists>u. (if truthy (get_prop (elements (get_prop recipe (js ''ingredients'')) ! i) (js ''unit''))
                 then get_prop (elements (get_prop recipe (js ''ingredients'')) ! i) (js ''unit'')
                 else JStr []) = JStr u
              \<and> elements (get_prop out (js ''ingredients'')) ! i =
                  JObj [(js ''name'',
                           get_prop (elements (get_prop recipe (js ''ingredients'')) ! i) (js ''name'')),
                        (js ''quantity'',
                           if truthy (get_prop (elements (get_prop recipe (js ''ingredients'')) ! i)
                                        (js ''quantity''))
                           then get_prop (elements (get_prop recipe (js ''ingredients'')) ! i)
                                  (js ''quantity'')
                           else JNum 1),
                        (js ''unit'', JStr (String_toLowerCase rt u))]"
    by simp
qed

lemma apply_defaults_steps_array:
  assumes "apply_defaults rt recipe = Inr out"
    and "isArray (get_prop recipe (js ''steps''))"
  shows "isArray (get_prop out (js ''steps''))"
    and "length (elements (get_prop out (js ''steps'')))
           = length (elements (get_prop recipe (js ''steps'')))"
    and "i < length (elements (get_prop recipe (js ''steps''))) \<Longrightarrow>
           elements (get_prop out (js ''steps'')) ! i =
             JObj [(js ''order'',
                      if truthy (get_prop (elements (get_prop recipe (js ''steps'')) ! i) (js ''order''))
                      then get_prop (elements (get_prop recipe (js ''steps'')) ! i) (js ''order'')
                      else JNum (of_nat (i + 1))),
                   (js ''text'', get_prop (elements (get_prop recipe (js ''steps'')) ! i) (js ''text''))]"
proof -
  from apply_defaults_result(4) [OF assms] obtain ys where
    ys: "map_steps (elements (get_prop recipe (js ''steps''))) 0 = Inr ys"
    and o: "get_prop out (js ''steps'') = JArr ys []" by blast
  from o show "isArray (get_prop out (js ''steps''))" by simp
  from o map_steps_length [OF ys]
  show "length (elements (get_prop out (js ''steps'')))
           = length (elements (get_prop recipe (js ''steps'')))" by simp
  assume "i < length (elements (get_prop recipe (js ''steps'')))"
  from map_steps_nth [OF ys this] o
  show "elements (get_prop out (js ''steps'')) ! i =
             JObj [(js ''order'',
                      if truthy (get_prop (elements (get_prop recipe (js ''steps'')) ! i) (js ''order''))
                      then get_prop (elements (get_prop recipe (js ''steps'')) ! i) (js ''order'')
                      else JNum (of_nat (i + 1))),
                   (js ''text'', get_prop (elements (get_prop recipe (js ''steps'')) ! i) (js ''text''))]"
    by simp
qed

lemma object_fields:
  "get_prop (JObj [(js ''name'', a), (js ''quantity'', b), (js ''unit'', c)]) (js ''quantity'') = b"
  "get_prop (JObj [(js ''name'', a), (js ''quantity'', b), (js ''unit'', c)]) (js ''unit'') = c"
  "get_prop (JObj [(js ''name'', a), (js ''quantity'', b), (js ''unit'', c)]) (js ''name'') = a"
  "get_prop (JObj [(js ''order'', d), (js ''text'', e)]) (js ''order'') = d"
  "get_prop (JObj [(js ''order'', d), (js ''text'', e)]) (js ''text'') = e"
  by (simp_all add: get_prop_def js_def)


lemma defaults_gratin: "apply_defaults gratin_env gratin_parsed = Inr gratin_recipe"
  by (simp add: apply_defaults_def gratin_parsed_def gratin_recipe_def and_then_def get_prop_def
      map_ingredient_def gratin_env_def test_env_def ascii_lower_def js_def)


lemma extract_soupe:
  "extractRecipe (test_env (claude_body soupe_json) s p) (JStr (js ''Soupe: eau.''))
     = ([InvokeModel (js ''anthropic.claude-3-sonnet-20240229-v1:0'') (JStr (js ''Soupe: eau.''))],
        Inr soupe_recipe)"
proof -
  have t: "find_textContent (claude_response soupe_json)
             = Inr (JObj [(js ''type'', JStr (js ''text'')), (js ''text'', JStr soupe_json)])"
    by (simp add: find_textContent_def claude_response_def get_prop_def js_def)
  have n: "soupe_json \<noteq> []" by (simp add: soupe_json_def js_def)
  have p1: "JSON_parse0 (JStr (claude_body soupe_json)) = Some (claude_response soupe_json)"
    by (simp add: JSON_parse0_def claude_body_def salade_json_def soupe_json_def js_def json_quote_def)
  have p2: "JSON_parse0 (JStr soupe_json) = Some soupe_parsed"
    by (simp add: JSON_parse0_def salade_json_def soupe_json_def js_def)
  have d: "apply_defaults (test_env (claude_body soupe_json) s p) soupe_parsed = Inr soupe_recipe"
    by (simp add: apply_defaults_def soupe_parsed_def soupe_recipe_def and_then_def get_prop_def
        map_ingredient_def test_env_def ascii_lower_def js_def)
  have "extractRecipe_try (test_env (claude_body soupe_json) s p) m t = Inr soupe_recipe" for m t
    using d by (simp add: extractRecipe_try_def and_then_def t get_prop_def n
        test_env_def p1 p2 js_def)
  then show ?thesis
    using model_id
    by (simp add: extractRecipe_def test_env_def) (simp add: js_def)
qed

text \<open>
  C2, as stated, fails: a backend recipe with servings -2, a quantity \<^verbatim>\<open>"deux"\<close> and tags
  \<^verbatim>\<open>"soupe"\<close> is returned with these values, all of them truthy, unchanged.
\<close>

theorem extractRecipe_negative_servings_counterexample:
  "snd (extractRecipe (test_env (claude_body soupe_json) api_down []) (JStr (js ''Soupe: eau.'')))
     = Inr soupe_recipe
   \<and> get_prop soupe_recipe (js ''servings'') = JNum (- 2)
   \<and> \<not> positive_number (get_prop soupe_recipe (js ''servings''))
   \<and> \<not> numeric (get_prop (elements (get_prop soupe_recipe (js ''ingredients'')) ! 0) (js ''quantity''))
   \<and> \<not> isArray (get_prop soupe_recipe (js ''tags''))"
  by (simp add: extract_soupe) (simp add: soupe_recipe_def get_prop_def js_def numeric_def)

text \<open>
  C2, amended. Let \<open>recipe\<close> be the parsed text item of the backend response, that is the
  value \<^verbatim>\<open>JSON.parse\<close> gives for the \<open>text\<close> of the item that \<open>find_textContent\<close> picks in the
  parsed body that \<open>bedrockClient_send\<close> returned, and let \<^verbatim>\<open>extractRecipe\<close> return \<open>out\<close>.
  Then \<open>out\<close> is \<open>recipe\<close> with the defaults applied. Its servings are those of \<open>recipe\<close> when
  truthy and 4 otherwise, so they are a positive number whenever those of \<open>recipe\<close> are a
  positive number or falsy. When the ingredients of \<open>recipe\<close> are an array, those of \<open>out\<close>
  are an array of the same length whose element \<open>i\<close> has exactly the name of the backend's,
  its quantity when truthy and 1 otherwise (a number whenever the backend's is a number or
  falsy) and, as unit, the result of \<^verbatim>\<open>toLowerCase\<close> on the backend's unit string (the empty
  string when that is falsy); otherwise the ingredients are unchanged. When the steps of
  \<open>recipe\<close> are an array, those of \<open>out\<close> are an array of the same length whose element \<open>i\<close>
  has the backend's order when truthy and \<open>i + 1\<close> otherwise, and the backend's text;
  otherwise the steps are unchanged. The tags of \<open>out\<close> are those of \<open>recipe\<close> when truthy
  and an empty array otherwise, so they are an array whenever those of \<open>recipe\<close> are an array
  or falsy.
\<close>

theorem extractRecipe_result_shape:
  assumes "extractRecipe env recipeText = (calls, Inr out)"
  shows "\<exists>configured decoded responseBody textContent recipe.
           getConfigValue_MODEL_ID env = Inr configured
         \<and> bedrockClient_send env (inference_profile (AWS_REGION env) configured) recipeText
             = Inr decoded
         \<and> JSON_parse env (JStr decoded) = Some responseBody
         \<and> find_textContent responseBody = Inr textContent
         \<and> JSON_parse env (get_prop textContent (js ''text'')) = Some recipe
         \<and> apply_defaults env recipe = Inr out
         \<and> get_prop out (js ''servings'') =
             (if truthy (get_prop recipe (js ''servings''))
              then get_prop recipe (js ''servings'') else JNum 4)
         \<and> (positive_number (get_prop recipe (js ''servings''))
              \<or> \<not> truthy (get_prop recipe (js ''servings''))
            \<longrightarrow> positive_number (get_prop out (js ''servings'')))
         \<and> (isArray (get_prop recipe (js ''ingredients'')) \<longrightarrow>
              isArray (get_prop out (js ''ingredients''))
              \<and> length (elements (get_prop out (js ''ingredients'')))
                  = length (elements (get_prop recipe (js ''ingredients'')))
              \<and> (\<forall>i < length (elements (get_prop recipe (js ''ingredients''))).
                   (\<exists>u. (if truthy (get_prop (elements (get_prop recipe (js ''ingredients'')) ! i)
                                      (js ''unit''))
                          then get_prop (elements (get_prop recipe (js ''ingredients'')) ! i) (js ''unit'')
                          else JStr []) = JStr u
                      \<and> elements (get_prop out (js ''ingredients'')) ! i =
                          JObj [(js ''name'',
                                   get_prop (elements (get_prop recipe (js ''ingredients'')) ! i)
                                     (js ''name'')),
                                (js ''quantity'',
                                   if truthy (get_prop (elements (get_prop recipe (js ''ingredients'')) ! i)
                                                (js ''quantity''))
                                   then get_prop (elements (get_prop recipe (js ''ingredients'')) ! i)
                                          (js ''quantity'')
                                   else JNum 1),
                                (js ''unit'', JStr (String_toLowerCase env u))])
                   \<and> (numeric (get_prop (elements (get_prop recipe (js ''ingredients'')) ! i) (js ''quantity''))
                        \<or> \<not> truthy (get_prop (elements (get_prop recipe (js ''ingredients'')) ! i)
                                       (js ''quantity''))
                       \<longrightarrow> numeric (get_prop (elements (get_prop out (js ''ingredients'')) ! i)
                                      (js ''quantity'')))))
         \<and> (\<not> isArray (get_prop recipe (js ''ingredients'')) \<longrightarrow>
              get_prop out (js ''ingredients'') = get_prop recipe (js ''ingredients''))
         \<and> (isArray (get_prop recipe (js ''steps'')) \<longrightarrow>
              isArray (get_prop out (js ''steps''))
              \<and> length (elements (get_prop out (js ''steps'')))
                  = length (elements (get_prop recipe (js ''steps'')))
              \<and> (\<forall>i < length (elements (get_prop recipe (js ''steps''))).
                   elements (get_prop out (js ''steps'')) ! i =
                     JObj [(js ''order'',
                              if truthy (get_prop (elements (get_prop recipe (js ''steps'')) ! i)
                                           (js ''order''))
                              then get_prop (elements (get_prop recipe (js ''steps'')) ! i) (js ''order'')
                              else JNum (of_nat (i + 1))),
                           (js ''text'',
                              get_prop (elements (get_prop recipe (js ''steps'')) ! i) (js ''text''))]))
         \<and> (\<not> isArray (get_prop recipe (js ''steps'')) \<longrightarrow>
              get_prop out (js ''steps'') = get_prop recipe (js ''steps''))
         \<and> get_prop out (js ''tags'') =
             (if truthy (get_prop recipe (js ''tags''))
              then get_prop recipe (js ''tags'') else JArr [] [])
         \<and> (isArray (get_prop recipe (js ''tags'')) \<or> \<not> truthy (get_prop recipe (js ''tags''))
            \<longrightarrow> isArray (get_prop out (js ''tags'')))"
proof -
  from extractRecipe_chain [OF assms] obtain configured decoded responseBody textContent recipe
    where c: "getConfigValue_MODEL_ID env = Inr configured"
      and s: "bedrockClient_send env (inference_profile (AWS_REGION env) configured) recipeText
                = Inr decoded"
      and p: "JSON_parse env (JStr decoded) = Some responseBody"
      and f: "find_textContent responseBody = Inr textContent"
      and q: "JSON_parse env (get_prop textContent (js ''text'')) = Some recipe"
      and d: "apply_defaults env recipe = Inr out"
    by blast
  note r = apply_defaults_result [OF d]
  have sv: "positive_number (get_prop out (js ''servings''))"
    if "positive_number (get_prop recipe (js ''servings''))
        \<or> \<not> truthy (get_prop recipe (js ''servings''))"
    using that by (auto simp: r(1))
  have tg: "isArray (get_prop out (js ''tags''))"
    if "isArray (get_prop recipe (js ''tags'')) \<or> \<not> truthy (get_prop recipe (js ''tags''))"
    using that by (auto simp: r(2))
  have nq: "numeric (get_prop (elements (get_prop out (js ''ingredients'')) ! i) (js ''quantity''))"
    if "isArray (get_prop recipe (js ''ingredients''))"
      and "i < length (elements (get_prop recipe (js ''ingredients'')))"
      and "numeric (get_prop (elements (get_prop recipe (js ''ingredients'')) ! i) (js ''quantity''))
           \<or> \<not> truthy (get_prop (elements (get_prop recipe (js ''ingredients'')) ! i) (js ''quantity''))"
    for i
    using apply_defaults_ingredients(3) [OF d that(1,2)] that(3)
    by (auto simp: object_fields numeric_def)
  note i1 = apply_defaults_ingredients(1) [OF d] and i2 = apply_defaults_ingredients(2) [OF d]
    and i3 = apply_defaults_ingredients(3) [OF d]
  note s1 = apply_defaults_steps_array(1) [OF d] and s2 = apply_defaults_steps_array(2) [OF d]
    and s3 = apply_defaults_steps_array(3) [OF d]
  have ing: "isArray (get_prop recipe (js ''ingredients'')) \<longrightarrow>
              isArray (get_prop out (js ''ingredients''))
              \<and> length (elements (get_prop out (js ''ingredients'')))
                  = length (elements (get_prop recipe (js ''ingredients'')))
              \<and> (\<forall>i < length (elements (get_prop recipe (js ''ingredients''))).
                   (\<exists>u. (if truthy (get_prop (elements (get_prop recipe (js ''ingredients'')) ! i)
                                      (js ''unit''))
                          then get_prop (elements (get_prop recipe (js ''ingredients'')) ! i) (js ''unit'')
                          else JStr []) = JStr u
                      \<and> elements (get_prop out (js ''ingredients'')) ! i =
                          JObj [(js ''name'',
                                   get_prop (elements (get_prop recipe (js ''ingredients'')) ! i)
                                     (js ''name'')),
                                (js ''quantity'',
                                   if truthy (get_prop (elements (get_prop recipe (js ''ingredients'')) ! i)
                                                (js ''quantity''))
                                   then get_prop (elements (get_prop recipe (js ''ingredients'')) ! i)
                                          (js ''quantity'')
                                   else JNum 1),
                                (js ''unit'', JStr (String_toLowerCase env u))])
                   \<and> (numeric (get_prop (elements (get_prop recipe (js ''ingredients'')) ! i) (js ''quantity''))
                        \<or> \<not> truthy (get_prop (elements (get_prop recipe (js ''ingredients'')) ! i)
                                       (js ''quantity''))
                       \<longrightarrow> numeric (get_prop (elements (get_prop out (js ''ingredients'')) ! i)
                                      (js ''quantity''))))"
    using i1 i2 i3 nq by blast
  have stp: "isArray (get_prop recipe (js ''steps'')) \<longrightarrow>
              isArray (get_prop out (js ''steps''))
              \<and> length (elements (get_prop out (js ''steps'')))
                  = length (elements (get_prop recipe (js ''steps'')))
              \<and> (\<forall>i < length (elements (get_prop recipe (js ''steps''))).
                   elements (get_prop out (js ''steps'')) ! i =
                     JObj [(js ''order'',
                              if truthy (get_prop (elements (get_prop recipe (js ''steps'')) ! i)
                                           (js ''order''))
                              then get_prop (elements (get_prop recipe (js ''steps'')) ! i) (js ''order'')
                              else JNum (of_nat (i + 1))),
                           (js ''text'',
                              get_prop (elements (get_prop recipe (js ''steps'')) ! i) (js ''text''))])"
    using s1 s2 s3 by blast
  from c s p f q d r(1) sv ing r(5) stp r(6) r(2) tg show ?thesis
    by blast
qed

lemma extract_gratin:
  "extractRecipe gratin_env (JStr (js ''Gratin pour 6: pommes de terre, creme.''))
     = ([InvokeModel (js ''eu.amazon.nova-lite-v1:0'')
           (JStr (js ''Gratin pour 6: pommes de terre, creme.''))],
        Inr gratin_recipe)"
proof -
  have m: "inference_profile (Some (js ''eu-west-3'')) (js ''amazon.nova-2-lite-v1:0'')
             = js ''eu.amazon.nova-lite-v1:0''"
    by (simp add: inference_profile_def js_def)
  have n: "gratin_json \<noteq> []" by (simp add: gratin_json_def js_def)
  have t: "find_textContent (nova_response gratin_json) = Inr (JObj [(js ''text'', JStr gratin_json)])"
    using n by (simp add: find_textContent_def nova_response_def get_prop_def js_def)
  have ne: "nova_body gratin_json \<noteq> gratin_json"
    by (simp add: nova_body_def gratin_json_def js_def json_quote_def)
  have s: "bedrockClient_send gratin_env x y = Inr (nova_body gratin_json)" for x y
    by (simp add: gratin_env_def test_env_def)
  have p1: "JSON_parse gratin_env (JStr (nova_body gratin_json)) = Some (nova_response gratin_json)"
    using ne by (simp add: gratin_env_def)
  have p2: "JSON_parse gratin_env (JStr gratin_json) = Some gratin_parsed"
    by (simp add: gratin_env_def)
  have "extractRecipe_try gratin_env x y = Inr gratin_recipe" for x y
    using defaults_gratin n
    by (simp add: extractRecipe_try_def and_then_def s p1 t) (simp add: get_prop_def p2 js_def)
  moreover have "getConfigValue_MODEL_ID gratin_env = Inr (js ''amazon.nova-2-lite-v1:0'')"
    "AWS_REGION gratin_env = Some (js ''eu-west-3'')"
    by (simp_all add: gratin_env_def)
  ultimately show ?thesis
    by (simp add: extractRecipe_def m) (simp add: js_def)
qed

theorem extractRecipe_result_shape_witness:
  "snd (extractRecipe gratin_env (JStr (js ''Gratin pour 6: pommes de terre, creme.'')))
     = Inr gratin_recipe
   \<and> JSON_parse gratin_env (JStr gratin_json) = Some gratin_parsed
   \<and> get_prop gratin_recipe (js ''servings'') = get_prop gratin_parsed (js ''servings'')
   \<and> positive_number (get_prop gratin_recipe (js ''servings''))
   \<and> elements (get_prop gratin_recipe (js ''ingredients''))
       = [JObj [(js ''name'', JStr (js ''pommes de terre'')), (js ''quantity'', JNum 1),
                (js ''unit'', JStr (js ''kg''))],
          JObj [(js ''name'', JStr (js ''creme'')), (js ''quantity'', JNum 25),
                (js ''unit'', JStr [])]]
   \<and> elements (get_prop gratin_recipe (js ''steps''))
       = [JObj [(js ''order'', JNum 1), (js ''text'', JStr (js ''Eplucher''))],
          JObj [(js ''order'', JNum 7), (js ''text'', JStr (js ''Cuire''))],
          JObj [(js ''order'', JNum 3), (js ''text'', JStr (js ''Servir''))]]
   \<and> get_prop gratin_recipe (js ''tags'') = get_prop gratin_parsed (js ''tags'')"
proof -
  have p: "JSON_parse gratin_env (JStr gratin_json) = Some gratin_parsed"
    by (simp add: gratin_env_def)
  have n: "gratin_json \<noteq> []" by (simp add: gratin_json_def js_def)
  from extractRecipe_result_shape [OF extract_gratin] extract_gratin p n
  show ?thesis
    by (simp add: gratin_recipe_def gratin_parsed_def get_prop_def js_def)
qed

section \<open>The validator\<close>

lemma forEach_ingredient_rules:
  "\<forall>x \<in> set xs. \<not> nullish x \<Longrightarrow>
     forEach_ingredient xs n errs = Inr (errs @ concat (map ingredient_rules (enumerate n xs)))"
  by (induction xs arbitrary: n errs) (auto simp: ingredient_rules_def Let_def)

lemma forEach_step_rules:
  "\<forall>x \<in> set xs. \<not> nullish x \<Longrightarrow>
     forEach_step xs n errs = Inr (errs @ concat (map step_rules (enumerate n xs)))"
  by (induction xs arbitrary: n errs) (auto simp: step_rules_def Let_def)

lemma validateRecipe_rules:
  assumes "truthy c"
    and "\<forall>x \<in> set (elements (get_prop c (js ''ingredients''))). \<not> nullish x"
    and "\<forall>x \<in> set (elements (get_prop c (js ''steps''))). \<not> nullish x"
  shows "validateRecipe c = Inr \<lparr>valid = (rule_errors c = []), errors = rule_errors c\<rparr>"
proof -
  have t: "[] @ title_rule c =
             (if \<not> truthy (get_prop c (js ''title''))
                  \<or> typeof (get_prop c (js ''title'')) \<noteq> ''string''
               then [] @ [js ''Title is required and must be a string''] else [])"
    by (simp add: title_rule_def)
  have s: "e @ servings_rule c =
             (if \<not> truthy (get_prop c (js ''servings''))
                  \<or> typeof (get_prop c (js ''servings'')) \<noteq> ''number''
               then e @ [js ''Servings is required and must be a number''] else e)" for e
    by (simp add: servings_rule_def)
  have i: "(if \<not> isArray (get_prop c (js ''ingredients''))
              then Inr (e @ [js ''Ingredients must be an array''])
              else forEach_ingredient (elements (get_prop c (js ''ingredients''))) 0 e)
           = Inr (e @ ingredients_rule c)" for e
    using assms(2) by (simp add: ingredients_rule_def forEach_ingredient_rules)
  have p: "(if \<not> isArray (get_prop c (js ''steps''))
              then Inr (e @ [js ''Steps must be an array''])
              else forEach_step (elements (get_prop c (js ''steps''))) 0 e)
           = Inr (e @ steps_rule c)" for e
    using assms(3) by (simp add: steps_rule_def forEach_step_rules)
  have g: "(if \<not> isArray (get_prop c (js ''tags''))
              then e @ [js ''Tags must be an array''] else e) = e @ tags_rule c" for e
    by (simp add: tags_rule_def)
  show ?thesis
    using assms(1)
    unfolding validateRecipe_def Let_def t [symmetric] s [symmetric] i p g
    by (simp add: rule_errors_def)
qed

lemma validateRecipe_valid_iff:
  "validateRecipe c = Inr v \<Longrightarrow> valid v = (errors v = [])"
  by (auto simp: validateRecipe_def Let_def split: if_splits sum.splits)

text \<open>
  C6, as stated, fails: on a non-null candidate whose ingredients contain \<^verbatim>\<open>null\<close> the
  validator throws a \<^verbatim>\<open>TypeError\<close> and returns no error list.
\<close>

theorem validateRecipe_null_element_counterexample:
  "truthy null_ingredient
   \<and> validateRecipe null_ingredient = Inl (TypeError (ReadOfNullish JNull (js ''name'')))"
  by (simp add: null_ingredient_def validateRecipe_def get_prop_def js_def)

text \<open>
  C6, amended. On a truthy candidate whose ingredients and steps contain no null or
  undefined element, \<^verbatim>\<open>validateRecipe\<close> returns the messages of all rules, each rule checked
  on its own (\<open>rule_errors\<close>), so that a candidate without title and servings has at least
  two; whenever it returns, \<open>valid\<close> is true if and only if the error list is empty; a null
  or otherwise falsy candidate yields \<open>valid = False\<close> with exactly one error.
\<close>

theorem validateRecipe_accumulates:
  "(\<not> truthy c \<longrightarrow>
      validateRecipe c = Inr \<lparr>valid = False, errors = [js ''Recipe object is required'']\<rparr>)
   \<and> (truthy c
       \<and> (\<forall>x \<in> set (elements (get_prop c (js ''ingredients''))). \<not> nullish x)
       \<and> (\<forall>x \<in> set (elements (get_prop c (js ''steps''))). \<not> nullish x) \<longrightarrow>
      validateRecipe c = Inr \<lparr>valid = (rule_errors c = []), errors = rule_errors c\<rparr>)
   \<and> (\<not> truthy (get_prop c (js ''title'')) \<and> \<not> truthy (get_prop c (js ''servings'')) \<longrightarrow>
      2 \<le> length (rule_errors c))
   \<and> (\<forall>v. validateRecipe c = Inr v \<longrightarrow> valid v = (errors v = []))"
proof -
  have a: "validateRecipe c = Inr \<lparr>valid = False, errors = [js ''Recipe object is required'']\<rparr>"
    if "\<not> truthy c" using that by (simp add: validateRecipe_def)
  have b: "2 \<le> length (rule_errors c)"
    if "\<not> truthy (get_prop c (js ''title''))" "\<not> truthy (get_prop c (js ''servings''))"
    using that by (simp add: rule_errors_def title_rule_def servings_rule_def)
  from a b validateRecipe_rules [of c] validateRecipe_valid_iff [of c] show ?thesis
    by blast
qed

theorem validateRecipe_accumulates_witness:
  "validateRecipe (JObj [(js ''ingredients'', JArr [JObj [(js ''name'', JStr (js ''laitue''))]] []),
                         (js ''steps'', JArr [] [])])
     = Inr \<lparr>valid = False,
            errors = [js ''Title is required and must be a string'',
                      js ''Servings is required and must be a number'',
                      js ''Ingredient 0: quantity must be a number'',
                      js ''Ingredient 0: unit is required and must be a string'',
                      js ''Tags must be an array'']\<rparr>
   \<and> validateRecipe JNull = Inr \<lparr>valid = False, errors = [js ''Recipe object is required'']\<rparr>"
  using validateRecipe_accumulates
          [of "JObj [(js ''ingredients'', JArr [JObj [(js ''name'', JStr (js ''laitue''))]] []),
                     (js ''steps'', JArr [] [])]"]
    validateRecipe_accumulates [of JNull]
  by (simp add: rule_errors_def title_rule_def servings_rule_def ingredients_rule_def
      steps_rule_def tags_rule_def ingredient_rules_def get_prop_def js_def show_nat.simps)

section \<open>The text extraction\<close>

lemma in_set_tl: "x \<in> set (tl xs) \<Longrightarrow> x \<in> set xs"
  by (cases xs) auto

lemma is_space_10 [simp]: "is_space 10"
  by (simp add: is_space_def)

lemma m_blank_lines_other: "c \<noteq> 10 \<Longrightarrow> m_blank_lines (c # t) = None"
  by (simp add: m_blank_lines_def)

lemma m_blank_lines_10:
  "m_blank_lines (10 # t) =
     (if 10 \<in> set (takeWhile is_space t)
      then Some (1 + length (dropWhile (\<lambda>x. x \<noteq> 10) (rev (takeWhile is_space t))))
      else None)"
  by (simp add: m_blank_lines_def)

lemma lead_collapse:
  "10 \<notin> set (takeWhile is_space s) \<Longrightarrow>
     takeWhile is_space (replace_all m_blank_lines [10, 10] s) = takeWhile is_space s"
proof (induction s)
  case Nil
  then show ?case by simp
next
  case (Cons c s)
  show ?case
  proof (cases "is_space c")
    case True
    with Cons.prems have "c \<noteq> 10" by auto
    with True Cons show ?thesis by (simp add: m_blank_lines_other)
  next
    case False
    then have "c \<noteq> 10" by auto
    with False show ?thesis by (simp add: m_blank_lines_other)
  qed
qed

lemma after_last: "x \<notin> set (drop (length (dropWhile (\<lambda>y. y \<noteq> x) (rev l))) l)"
proof -
  have "rev l = takeWhile (\<lambda>y. y \<noteq> x) (rev l) @ dropWhile (\<lambda>y. y \<noteq> x) (rev l)" by simp
  then have "l = rev (dropWhile (\<lambda>y. y \<noteq> x) (rev l)) @ rev (takeWhile (\<lambda>y. y \<noteq> x) (rev l))"
    by (metis rev_append rev_rev_ident)
  then have "drop (length (dropWhile (\<lambda>y. y \<noteq> x) (rev l))) l = rev (takeWhile (\<lambda>y. y \<noteq> x) (rev l))"
    by (metis append_eq_conv_conj length_rev)
  then show ?thesis
    by (auto dest: set_takeWhileD)
qed

lemma takeWhile_drop_le:
  assumes "k \<le> length (takeWhile P xs)"
  shows "takeWhile P (drop k xs) = drop k (takeWhile P xs)"
proof -
  have "drop k (takeWhile P xs @ dropWhile P xs) = drop k (takeWhile P xs) @ dropWhile P xs"
    using assms by (simp del: takeWhile_dropWhile_id)
  then have "drop k xs = drop k (takeWhile P xs) @ dropWhile P xs" by simp
  then have "takeWhile P (drop k xs) = takeWhile P (drop k (takeWhile P xs) @ dropWhile P xs)"
    by simp
  also have "\<dots> = drop k (takeWhile P xs) @ takeWhile P (dropWhile P xs)"
    by (rule takeWhile_append2) (auto dest: in_set_dropD set_takeWhileD)
  also have "takeWhile P (dropWhile P xs) = []"
    using hd_dropWhile [of P xs] by (auto simp: takeWhile_eq_Nil_iff)
  finally show ?thesis by simp
qed

lemma gaps_ok_collapse: "gaps_ok (replace_all m_blank_lines [10, 10] s)"
proof (induction "m_blank_lines" "[10::nat, 10]" s rule: replace_all.induct)
  case 1
  then show ?case by simp
next
  case (2 c cs)
  show ?case
  proof (cases "m_blank_lines (c # cs)")
    case None
    have "10 \<notin> set (takeWhile is_space (replace_all m_blank_lines [10, 10] cs))" if "c = 10"
    proof -
      from that None have "10 \<notin> set (takeWhile is_space cs)"
        by (auto simp: m_blank_lines_10 split: if_splits)
      then show ?thesis by (simp add: lead_collapse)
    qed
    then have "c = 10 \<longrightarrow> 10 \<notin> set (tl (takeWhile is_space (replace_all m_blank_lines [10, 10] cs)))"
      by (auto dest: in_set_tl)
    with None 2(1) show ?thesis by simp
  next
    case (Some n)
    then have c: "c = 10" by (cases "c = 10") (simp_all add: m_blank_lines_other)
    let ?run = "takeWhile is_space cs"
    from Some c have n: "n = 1 + length (dropWhile (\<lambda>x. x \<noteq> 10) (rev ?run))"
      by (auto simp: m_blank_lines_10 split: if_splits)
    let ?k = "length (dropWhile (\<lambda>x. x \<noteq> 10) (rev ?run))"
    have k: "?k \<le> length ?run"
      by (metis length_dropWhile_le length_rev)
    have "takeWhile is_space (drop ?k cs) = drop ?k ?run"
      by (rule takeWhile_drop_le [OF k])
    then have "10 \<notin> set (takeWhile is_space (drop ?k cs))"
      by (simp add: after_last)
    then have l: "10 \<notin> set (takeWhile is_space (replace_all m_blank_lines [10, 10] (drop ?k cs)))"
      by (simp add: lead_collapse)
    then have l': "10 \<notin> set (tl (takeWhile is_space (replace_all m_blank_lines [10, 10] (drop ?k cs))))"
      by (auto dest: in_set_tl)
    from 2(2) [OF Some] n have "gaps_ok (replace_all m_blank_lines [10, 10] (drop ?k cs))" by simp
    with Some c n l l' show ?thesis by simp
  qed
qed

lemma gaps_ok_fixed: "gaps_ok s \<Longrightarrow> replace_all m_blank_lines [10, 10] s = s"
proof (induction "m_blank_lines" "[10::nat, 10]" s rule: replace_all.induct)
  case 1
  then show ?case by simp
next
  case (2 c cs)
  from 2(3) have ok: "gaps_ok cs" by simp
  show ?case
  proof (cases "m_blank_lines (c # cs)")
    case None
    with 2(1) [OF None ok] show ?thesis by simp
  next
    case (Some n)
    then have c: "c = 10" by (cases "c = 10") (simp_all add: m_blank_lines_other)
    let ?run = "takeWhile is_space cs"
    from Some c have n: "n = 1 + length (dropWhile (\<lambda>x. x \<noteq> 10) (rev ?run))"
      and i: "10 \<in> set ?run"
      by (auto simp: m_blank_lines_10 split: if_splits)
    from 2(3) c have "10 \<notin> set (tl ?run)" by simp
    with i obtain r where r: "?run = 10 # r" "10 \<notin> set r"
      by (cases ?run) auto
    then have "dropWhile (\<lambda>x. x \<noteq> 10) (rev ?run) = [10]"
      by (simp add: dropWhile_append)
    with n have n2: "n = 2" by simp
    from r obtain cs' where cs: "cs = 10 # cs'"
      by (cases cs) (auto split: if_splits)
    with ok have "gaps_ok cs'" by simp
    with 2(2) [OF Some] n2 cs have "replace_all m_blank_lines [10, 10] cs' = cs'" by simp
    with Some n2 c cs show ?thesis by simp
  qed
qed

lemma is_space_blank [simp]: "is_space 32" "is_space 9"
  by (simp_all add: is_space_def)

lemma collapse_blanks_Cons:
  "replace_all m_blanks [32] (c # cs) =
     (if c = 32 \<or> c = 9 then 32 # replace_all m_blanks [32] (dropWhile (\<lambda>x. x = 32 \<or> x = 9) cs)
      else c # replace_all m_blanks [32] cs)"
  by (simp add: m_blanks_def dropWhile_eq_drop)

lemma m_blanks_Some:
  "m_blanks (c # cs) = Some n \<Longrightarrow>
     (c = 32 \<or> c = 9) \<and> drop (n - 1) cs = dropWhile (\<lambda>x. x = 32 \<or> x = 9) cs"
  by (auto simp: m_blanks_def dropWhile_eq_drop split: if_splits)

lemma m_blanks_None: "m_blanks (c # cs) = None \<Longrightarrow> c \<noteq> 32 \<and> c \<noteq> 9"
  by (auto simp: m_blanks_def split: if_splits)

lemma lead_after_blanks:
  "set (takeWhile is_space (dropWhile (\<lambda>x. x = 32 \<or> x = 9) cs)) \<subseteq> set (takeWhile is_space cs)"
proof (induction cs)
  case Nil
  then show ?case by simp
next
  case (Cons c cs)
  then show ?case by auto
qed

lemma lead_collapse_blanks:
  "10 \<in> set (takeWhile is_space (replace_all m_blanks [32] s)) \<Longrightarrow> 10 \<in> set (takeWhile is_space s)"
proof (induction "m_blanks" "[32::nat]" s rule: replace_all.induct)
  case 1
  then show ?case by simp
next
  case (2 c cs)
  show ?case
  proof (cases "m_blanks (c # cs)")
    case None
    with 2(1) [OF None] 2(3) show ?thesis
      by (auto split: if_splits)
  next
    case (Some n)
    note s = m_blanks_Some [OF Some]
    from 2(3) Some s have "10 \<in> set (takeWhile is_space (replace_all m_blanks [32] (drop (n - 1) cs)))"
      by auto
    from 2(2) [OF Some this] s have "10 \<in> set (takeWhile is_space (dropWhile (\<lambda>x. x = 32 \<or> x = 9) cs))"
      by simp
    with lead_after_blanks [of cs] s show ?thesis by auto
  qed
qed

lemma gaps_ok_drop: "gaps_ok s \<Longrightarrow> gaps_ok (drop k s)"
proof (induction s arbitrary: k)
  case Nil
  then show ?case by simp
next
  case (Cons c s)
  then show ?case by (cases k) auto
qed

lemma gaps_ok_dropWhile: "gaps_ok s \<Longrightarrow> gaps_ok (dropWhile P s)"
  by (simp add: dropWhile_eq_drop gaps_ok_drop)

lemma gaps_ok_collapse_blanks: "gaps_ok s \<Longrightarrow> gaps_ok (replace_all m_blanks [32] s)"
proof (induction "m_blanks" "[32::nat]" s rule: replace_all.induct)
  case 1
  then show ?case by simp
next
  case (2 c cs)
  from 2(3) have ok: "gaps_ok cs" by simp
  show ?case
  proof (cases "m_blanks (c # cs)")
    case None
    have "10 \<notin> set (tl (takeWhile is_space (replace_all m_blanks [32] cs)))" if c: "c = 10"
    proof
      assume a: "10 \<in> set (tl (takeWhile is_space (replace_all m_blanks [32] cs)))"
      from c 2(3) have n: "10 \<notin> set (tl (takeWhile is_space cs))" by simp
      show False
      proof (cases cs)
        case Nil
        with a show False by simp
      next
        case (Cons d ds)
        show False
        proof (cases "d = 32 \<or> d = 9")
          case True
          with a Cons have "10 \<in> set (takeWhile is_space
              (replace_all m_blanks [32] (dropWhile (\<lambda>x. x = 32 \<or> x = 9) ds)))"
            by (auto simp del: replace_all.simps simp: collapse_blanks_Cons)
          then have "10 \<in> set (takeWhile is_space (dropWhile (\<lambda>x. x = 32 \<or> x = 9) ds))"
            by (rule lead_collapse_blanks)
          with lead_after_blanks [of ds] have "10 \<in> set (takeWhile is_space ds)" by auto
          with n Cons True show False by auto
        next
          case False
          with a Cons have "is_space d" "10 \<in> set (takeWhile is_space (replace_all m_blanks [32] ds))"
            by (auto simp del: replace_all.simps simp: collapse_blanks_Cons split: if_splits)
          then have "10 \<in> set (takeWhile is_space ds)"
            using lead_collapse_blanks by blast
          with n Cons \<open>is_space d\<close> show False by simp
        qed
      qed
    qed
    with None 2(1) [OF None ok] show ?thesis by simp
  next
    case (Some n)
    note s = m_blanks_Some [OF Some]
    from ok have "gaps_ok (drop (n - 1) cs)" by (rule gaps_ok_drop)
    from 2(2) [OF Some this] Some s show ?thesis by auto
  qed
qed

lemma blanks_ok_fixed: "blanks_ok s \<Longrightarrow> replace_all m_blanks [32] s = s"
proof (induction s)
  case Nil
  then show ?case by simp
next
  case (Cons c s)
  then have ih: "replace_all m_blanks [32] s = s" by simp
  from Cons.prems have "dropWhile (\<lambda>x. x = 32 \<or> x = 9) s = s" if "c = 32"
    using that by (cases s) auto
  with Cons.prems ih show ?case
    by (auto simp del: replace_all.simps simp: collapse_blanks_Cons)
qed

lemma blanks_ok_collapse: "blanks_ok (replace_all m_blanks [32] s)"
proof (induction "m_blanks" "[32::nat]" s rule: replace_all.induct)
  case 1
  then show ?case by simp
next
  case (2 c cs)
  show ?case
  proof (cases "m_blanks (c # cs)")
    case None
    with 2(1) [OF None] m_blanks_None [OF None] show ?thesis by simp
  next
    case (Some n)
    note s = m_blanks_Some [OF Some]
    let ?rest = "dropWhile (\<lambda>x. x = 32 \<or> x = 9) cs"
    have "replace_all m_blanks [32] ?rest = [] \<or> hd (replace_all m_blanks [32] ?rest) \<noteq> 32"
    proof (cases ?rest)
      case Nil
      then have "replace_all m_blanks [32] ?rest = replace_all m_blanks [32] []"
        by (simp only:)
      then show ?thesis by simp
    next
      case (Cons d ds)
      with hd_dropWhile [of "\<lambda>x. x = 32 \<or> x = 9" cs] have "d \<noteq> 32 \<and> d \<noteq> 9" by auto
      moreover from Cons have "replace_all m_blanks [32] ?rest = replace_all m_blanks [32] (d # ds)"
        by (simp only:)
      ultimately show ?thesis
        by (simp del: replace_all.simps add: collapse_blanks_Cons)
    qed
    with 2(2) [OF Some] Some s show ?thesis by auto
  qed
qed

lemma trim_strip: "trim s = strip_end (dropWhile is_space s)"
  by (simp add: trim_def strip_end_def)

lemma strip_end_Nil [simp]: "strip_end [] = []"
  by (simp add: strip_end_def)

lemma strip_end_Cons:
  "strip_end (c # t) = (if strip_end t = [] \<and> is_space c then [] else c # strip_end t)"
  by (auto simp: strip_end_def dropWhile_append)

lemma hd_strip_end: "strip_end t \<noteq> [] \<Longrightarrow> hd (strip_end t) = hd t"
  by (cases t) (auto simp: strip_end_Cons split: if_splits)

lemma lead_strip_end: "strip_end t \<noteq> [] \<Longrightarrow> takeWhile is_space (strip_end t) = takeWhile is_space t"
proof (induction t)
  case Nil
  then show ?case by simp
next
  case (Cons c t)
  then show ?case by (auto simp: strip_end_Cons split: if_splits)
qed

lemma gaps_ok_strip_end: "gaps_ok t \<Longrightarrow> gaps_ok (strip_end t)"
proof (induction t)
  case Nil
  then show ?case by simp
next
  case (Cons c t)
  have "10 \<notin> set (tl (takeWhile is_space (strip_end t)))" if "c = 10"
    using that Cons.prems lead_strip_end [of t] by (cases "strip_end t = []") auto
  with Cons show ?case by (simp add: strip_end_Cons)
qed

lemma blanks_ok_dropWhile: "blanks_ok s \<Longrightarrow> blanks_ok (dropWhile P s)"
  by (induction s) auto

lemma blanks_ok_strip_end: "blanks_ok t \<Longrightarrow> blanks_ok (strip_end t)"
proof (induction t)
  case Nil
  then show ?case by simp
next
  case (Cons c t)
  have "strip_end t = [] \<or> hd (strip_end t) \<noteq> 32" if "c = 32"
    using that Cons.prems hd_strip_end [of t] by (cases "strip_end t = []") auto
  with Cons show ?case by (simp add: strip_end_Cons)
qed

lemma strip_end_idem: "strip_end (strip_end t) = strip_end t"
  by (simp add: strip_end_def)

lemma trim_fixed: "trim (trim s) = trim s"
proof (cases "trim s = []")
  case True
  then have "trim (trim s) = trim []" by (simp only:)
  also have "\<dots> = []" by (simp add: trim_def)
  finally show ?thesis using True by simp
next
  case False
  then have ne: "strip_end (dropWhile is_space s) \<noteq> []" by (simp add: trim_strip)
  have d: "dropWhile is_space s \<noteq> []"
  proof
    assume "dropWhile is_space s = []"
    then have "strip_end (dropWhile is_space s) = strip_end []" by (simp only:)
    with ne show False by simp
  qed
  from hd_strip_end [OF ne] hd_dropWhile [OF d] have "\<not> is_space (hd (trim s))"
    by (simp add: trim_strip)
  then have "dropWhile is_space (trim s) = trim s"
    by (simp add: dropWhile_eq_self_iff)
  moreover have "strip_end (trim s) = trim s"
    by (simp only: trim_strip strip_end_idem)
  ultimately show ?thesis by (simp add: trim_strip)
qed

lemma whitespace_stages_idem: "whitespace_stages (whitespace_stages s) = whitespace_stages s"
proof -
  let ?t = "replace_all m_blanks [32] (replace_all m_blank_lines [10, 10] s)"
  have g: "gaps_ok (whitespace_stages s)"
    unfolding whitespace_stages_def trim_strip
    by (intro gaps_ok_strip_end gaps_ok_dropWhile gaps_ok_collapse_blanks gaps_ok_collapse)
  have b: "blanks_ok (whitespace_stages s)"
    unfolding whitespace_stages_def trim_strip
    by (intro blanks_ok_strip_end blanks_ok_dropWhile blanks_ok_collapse)
  have "whitespace_stages (whitespace_stages s) = trim (replace_all m_blanks [32] (replace_all m_blank_lines [10, 10] (whitespace_stages s)))"
    by (simp add: whitespace_stages_def)
  also have "\<dots> = trim (whitespace_stages s)"
    by (simp add: gaps_ok_fixed [OF g] blanks_ok_fixed [OF b])
  also have "\<dots> = whitespace_stages s"
    by (simp add: whitespace_stages_def trim_fixed)
  finally show ?thesis .
qed

lemma extract_stages: "extractTextFromHtml html = whitespace_stages (markup_stages html)"
  by (simp add: extractTextFromHtml_def whitespace_stages_def markup_stages_def Let_def)

lemma replace_all_anchored:
  assumes "\<And>t n. m t = Some n \<Longrightarrow> t \<noteq> [] \<and> hd t = a"
    and "a \<notin> set s"
  shows "replace_all m r s = s"
  using assms(2)
proof (induction s)
  case Nil
  then show ?case by simp
next
  case (Cons c s)
  have "m (c # s) = None"
  proof (cases "m (c # s)")
    case (Some n)
    from assms(1) [OF Some] Cons.prems show ?thesis by simp
  qed simp
  with Cons show ?case by simp
qed

lemma ascii_lower_60: "ascii_lower c = 60 \<Longrightarrow> c = 60"
  by (auto simp: ascii_lower_def split: if_splits)

lemma ci_prefix_lt: "ci_prefix (60 # p) t \<Longrightarrow> t \<noteq> [] \<and> hd t = 60"
  by (cases t) (auto simp: ci_prefix_def dest: ascii_lower_60)

lemma js_Cons: "js (c # s) = of_char c # js s"
  by (simp add: js_def)

lemma m_block_anchored: "m_block tag t = Some n \<Longrightarrow> t \<noteq> [] \<and> hd t = 60"
  by (auto simp: m_block_def Let_def js_Cons split: if_splits dest: ci_prefix_lt)

lemma m_comment_anchored: "m_comment t = Some n \<Longrightarrow> t \<noteq> [] \<and> hd t = 60"
  by (cases t) (auto simp: m_comment_def js_def split: if_splits)

lemma m_tag_of_anchored: "m_tag_of (CHR ''<'' # opener) alts t = Some n \<Longrightarrow> t \<noteq> [] \<and> hd t = 60"
  by (auto simp: m_tag_of_def js_Cons split: if_splits dest: ci_prefix_lt)

lemma m_any_tag_anchored: "m_any_tag t = Some n \<Longrightarrow> t \<noteq> [] \<and> hd t = 60"
  by (auto simp: m_any_tag_def split: list.splits if_splits)

lemma m_lit_anchored: "m_lit (js (CHR ''&'' # p)) t = Some n \<Longrightarrow> t \<noteq> [] \<and> hd t = 38"
  by (cases t) (auto simp: m_lit_def js_Cons split: if_splits)

lemma markup_stages_plain:
  assumes "60 \<notin> set s" and "38 \<notin> set s"
  shows "markup_stages s = s"
proof -
  have t: "replace_all m r s = s" if "\<And>t n. m t = Some n \<Longrightarrow> t \<noteq> [] \<and> hd t = 60" for m r
    using that assms(1) by (rule replace_all_anchored)
  have e: "replace_all m r s = s" if "\<And>t n. m t = Some n \<Longrightarrow> t \<noteq> [] \<and> hd t = 38" for m r
    using that assms(2) by (rule replace_all_anchored)
  show ?thesis
    unfolding markup_stages_def Let_def
    by (simp only: t [OF m_block_anchored] t [OF m_comment_anchored] t [OF m_tag_of_anchored]
        t [OF m_any_tag_anchored] e [OF m_lit_anchored])
qed

lemma extractTextFromHtml_idem:
  assumes "60 \<notin> set (extractTextFromHtml html)" and "38 \<notin> set (extractTextFromHtml html)"
  shows "extractTextFromHtml (extractTextFromHtml html) = extractTextFromHtml html"
proof -
  have "extractTextFromHtml (extractTextFromHtml html)
          = whitespace_stages (extractTextFromHtml html)"
    by (simp only: extract_stages [of "extractTextFromHtml html"] markup_stages_plain [OF assms])
  also have "\<dots> = extractTextFromHtml html"
    by (simp only: extract_stages whitespace_stages_idem)
  finally show ?thesis .
qed

lemma gaps_ok_no_lf: "10 \<notin> set s \<Longrightarrow> gaps_ok s"
proof (induction s)
  case Nil
  then show ?case by simp
next
  case (Cons c s)
  then show ?case by auto
qed

lemma blanks_ok_no_blank: "9 \<notin> set s \<Longrightarrow> 32 \<notin> set s \<Longrightarrow> blanks_ok s"
  by (induction s) auto

lemma strip_end_no_space: "\<forall>c \<in> set s. \<not> is_space c \<Longrightarrow> strip_end s = s"
  by (induction s) (auto simp: strip_end_Cons)

lemma whitespace_stages_plain:
  assumes "\<forall>c \<in> set s. \<not> is_space c"
  shows "whitespace_stages s = s"
proof -
  from assms have "10 \<notin> set s" "9 \<notin> set s" "32 \<notin> set s" by auto
  then have "replace_all m_blanks [32] (replace_all m_blank_lines [10, 10] s) = s"
    by (simp add: gaps_ok_fixed gaps_ok_no_lf blanks_ok_fixed blanks_ok_no_blank)
  moreover from assms have "dropWhile is_space s = s"
    by (cases s) auto
  ultimately show ?thesis
    using assms by (simp add: whitespace_stages_def trim_strip strip_end_no_space)
qed

lemma extractTextFromHtml_plain:
  assumes "\<forall>c \<in> set s. \<not> is_space c \<and> c \<noteq> 60 \<and> c \<noteq> 38"
  shows "extractTextFromHtml s = s"
proof -
  from assms have "60 \<notin> set s" "38 \<notin> set s" by auto
  then have "markup_stages s = s" by (rule markup_stages_plain)
  with assms show ?thesis by (simp add: extract_stages whitespace_stages_plain)
qed

lemma trim_extract: "trim (extractTextFromHtml html) = extractTextFromHtml html"
  by (simp add: extract_stages whitespace_stages_def trim_fixed)

lemma trim_nonempty: "s \<noteq> [] \<Longrightarrow> \<not> is_space (hd s) \<Longrightarrow> trim s \<noteq> []"
  by (cases s) (auto simp: trim_strip strip_end_Cons)

lemma trimmed_head: "trim s \<noteq> [] \<Longrightarrow> \<not> is_space (hd (trim s))"
proof -
  assume ne: "trim s \<noteq> []"
  then have a: "strip_end (dropWhile is_space s) \<noteq> []" by (simp add: trim_strip)
  have d: "dropWhile is_space s \<noteq> []"
  proof
    assume "dropWhile is_space s = []"
    then have "strip_end (dropWhile is_space s) = strip_end []" by (simp only:)
    with a show False by simp
  qed
  from hd_strip_end [OF a] hd_dropWhile [OF d] show ?thesis by (simp add: trim_strip)
qed

lemma take_extract_not_blank:
  assumes "extractTextFromHtml html \<noteq> []" and "0 < n"
  shows "trim (take n (extractTextFromHtml html)) \<noteq> []"
proof -
  let ?t = "extractTextFromHtml html"
  from assms(1) have "trim ?t \<noteq> []" by (simp add: trim_extract)
  then have "\<not> is_space (hd (trim ?t))" by (rule trimmed_head)
  then have h: "\<not> is_space (hd ?t)" by (simp add: trim_extract)
  from assms have "take n ?t \<noteq> []" "hd (take n ?t) = hd ?t"
    by (cases ?t; cases n; simp)+
  with h show ?thesis by (simp add: trim_nonempty)
qed

lemma extract_escaped_tag: "extractTextFromHtml (js ''a&lt;b&gt;c'') = js ''a<b>c''"
  by (simp add: extractTextFromHtml_def js_def m_block_def m_comment_def m_tag_of_def m_any_tag_def
      m_lit_def m_blank_lines_def m_blanks_def trim_def is_space_def ci_prefix_def ascii_lower_def)

lemma extract_tag: "extractTextFromHtml (js ''a<b>c'') = js ''a c''"
  by (simp add: extractTextFromHtml_def js_def m_block_def m_comment_def m_tag_of_def m_any_tag_def
      m_lit_def m_blank_lines_def m_blanks_def trim_def is_space_def ci_prefix_def ascii_lower_def)

lemma extract_page: "extractTextFromHtml (js ''<p>Salade&nbsp; verte</p><br>'' @ [10, 10]
             @ js ''<script>alert(1)</script>Laver <b>vite</b>'')
           = js ''Salade verte'' @ [10, 10] @ js ''Laver vite''"
  by (simp add: extractTextFromHtml_def js_def m_block_def m_comment_def m_tag_of_def m_any_tag_def
      m_lit_def m_blank_lines_def m_blanks_def trim_def is_space_def ci_prefix_def ascii_lower_def)

text \<open>
  C7, as stated, fails: the entities are decoded after the tags are stripped, so an escaped
  tag survives the first pass as a tag and is stripped by the second.
\<close>

theorem extractTextFromHtml_not_idempotent_counterexample:
  "extractTextFromHtml (extractTextFromHtml (js ''a&lt;b&gt;c''))
     \<noteq> extractTextFromHtml (js ''a&lt;b&gt;c'')"
  by (simp add: extract_escaped_tag extract_tag) (simp add: js_def)

text \<open>
  C7, amended. \<^verbatim>\<open>extractTextFromHtml\<close> applied twice equals \<^verbatim>\<open>extractTextFromHtml\<close>
  applied once on every input whose extracted text contains neither \<^verbatim>\<open><\<close> nor \<^verbatim>\<open>&\<close>.
\<close>

theorem extractTextFromHtml_idempotent_on_plain_output:
  assumes "60 \<notin> set (extractTextFromHtml html)" and "38 \<notin> set (extractTextFromHtml html)"
  shows "extractTextFromHtml (extractTextFromHtml html) = extractTextFromHtml html"
  using assms by (rule extractTextFromHtml_idem)

theorem extractTextFromHtml_idempotent_on_plain_output_witness:
  "60 \<notin> set (extractTextFromHtml (js ''<p>Salade&nbsp; verte</p><br>'' @ [10, 10]
             @ js ''<script>alert(1)</script>Laver <b>vite</b>''))
   \<and> 38 \<notin> set (extractTextFromHtml (js ''<p>Salade&nbsp; verte</p><br>'' @ [10, 10]
             @ js ''<script>alert(1)</script>Laver <b>vite</b>''))
   \<and> extractTextFromHtml (extractTextFromHtml (js ''<p>Salade&nbsp; verte</p><br>'' @ [10, 10]
             @ js ''<script>alert(1)</script>Laver <b>vite</b>''))
       = js ''Salade verte'' @ [10, 10] @ js ''Laver vite''"
proof -
  let ?h = "js ''<p>Salade&nbsp; verte</p><br>'' @ [10, 10]
             @ js ''<script>alert(1)</script>Laver <b>vite</b>''"
  have a: "60 \<notin> set (extractTextFromHtml ?h)"
    unfolding extract_page by (simp add: js_def)
  have b: "38 \<notin> set (extractTextFromHtml ?h)"
    unfolding extract_page by (simp add: js_def)
  have "extractTextFromHtml (extractTextFromHtml ?h) = extractTextFromHtml ?h"
    by (rule extractTextFromHtml_idempotent_on_plain_output [OF a b])
  also have "\<dots> = js ''Salade verte'' @ [10, 10] @ js ''Laver vite''"
    by (rule extract_page)
  finally have c: "extractTextFromHtml (extractTextFromHtml ?h)
                     = js ''Salade verte'' @ [10, 10] @ js ''Laver vite''" .
  from a b c show ?thesis by (intro conjI)
qed

section \<open>The length limit of the two entry points\<close>

lemma extractRecipeFromText_calls:
  assumes "getConfigValue_MODEL_ID env = Inr configured" and "\<not> blank_input (JStr text)"
  shows "\<exists>rest. fst (extractRecipeFromText env (JStr text))
           = InvokeModel (inference_profile (AWS_REGION env) configured) (JStr text) # rest"
proof -
  from assms(2) have ne: "text \<noteq> []" by auto
  obtain r where "extractRecipe env (JStr text)
       = ([InvokeModel (inference_profile (AWS_REGION env) configured) (JStr text)], r)"
    using assms(1) ne by (simp add: extractRecipe_def Let_def)
  then show ?thesis
    using assms
    by (cases r) (auto simp: extractRecipeFromText_def Let_def split: sum.splits)
qed

text \<open>
  C5. A literal \<open>recipeText\<close> of more than 50,000 code units is answered with status 400
  and no call to any collaborator. A fetched page whose extracted text has more than
  50,000 code units is not rejected: the orchestrator runs on the first 50,000 code units,
  which are not blank, the backend is invoked with exactly them once the model identifier
  is configured, and the answer is the success envelope whenever the orchestrator
  succeeds.
\<close>

theorem length_limit_asymmetry:
  "(length text > 50000 \<longrightarrow>
      handleTextExtraction env (JStr text)
        = ([], Inr (errorResponse (js ''Recipe text too long (max 50000 characters)'') 400 [])))
   \<and> (isValidUrl env url \<and> fetchWebpage env url = Inr html
       \<and> length (extractTextFromHtml html) > 50000 \<longrightarrow>
      handleUrlExtraction env url =
        (case extractRecipeFromText env (JStr (take 50000 (extractTextFromHtml html))) of
           (calls, Inl error) \<Rightarrow> (FetchWebpage url # calls, url_catch env error)
         | (calls, Inr result) \<Rightarrow>
             (FetchWebpage url # calls,
              Inr (successResponse
                     (JObj (assign (assign (own_props result) (js ''sourceUrl'') url)
                              (js ''extractedTextLength'')
                              (JNum (of_nat (length (extractTextFromHtml html))))))
                     200)))
      \<and> \<not> blank_input (JStr (take 50000 (extractTextFromHtml html)))
      \<and> (\<forall>configured. getConfigValue_MODEL_ID env = Inr configured \<longrightarrow>
            (\<exists>rest. fst (handleUrlExtraction env url)
               = FetchWebpage url
                 # InvokeModel (inference_profile (AWS_REGION env) configured)
                     (JStr (take 50000 (extractTextFromHtml html)))
                 # rest)))"
proof (intro conjI impI)
  assume "length text > 50000"
  then show "handleTextExtraction env (JStr text)
        = ([], Inr (errorResponse (js ''Recipe text too long (max 50000 characters)'') 400 []))"
    by (simp add: handleTextExtraction_def)
next
  let ?t = "extractTextFromHtml html"
  assume a: "isValidUrl env url \<and> fetchWebpage env url = Inr html \<and> length ?t > 50000"
  then have ne: "?t \<noteq> []" by auto
  then have tr: "length (trim ?t) \<noteq> 0" by (simp add: trim_extract)
  from take_extract_not_blank [OF ne, of 50000] a
  show nb: "\<not> blank_input (JStr (take 50000 ?t))" by auto
  show eq: "handleUrlExtraction env url =
        (case extractRecipeFromText env (JStr (take 50000 ?t)) of
           (calls, Inl error) \<Rightarrow> (FetchWebpage url # calls, url_catch env error)
         | (calls, Inr result) \<Rightarrow>
             (FetchWebpage url # calls,
              Inr (successResponse
                     (JObj (assign (assign (own_props result) (js ''sourceUrl'') url)
                              (js ''extractedTextLength'')
                              (JNum (of_nat (length ?t)))))
                     200)))"
    using a ne tr by (simp add: handleUrlExtraction_def fetchAndExtractWebpage_def Let_def)
  show "\<forall>configured. getConfigValue_MODEL_ID env = Inr configured \<longrightarrow>
            (\<exists>rest. fst (handleUrlExtraction env url)
               = FetchWebpage url
                 # InvokeModel (inference_profile (AWS_REGION env) configured)
                     (JStr (take 50000 ?t))
                 # rest)"
  proof (intro allI impI)
    fix configured
    assume "getConfigValue_MODEL_ID env = Inr configured"
    from extractRecipeFromText_calls [OF this nb] obtain rest where
      "fst (extractRecipeFromText env (JStr (take 50000 ?t)))
         = InvokeModel (inference_profile (AWS_REGION env) configured) (JStr (take 50000 ?t)) # rest"
      by blast
    then show "\<exists>rest. fst (handleUrlExtraction env url)
               = FetchWebpage url
                 # InvokeModel (inference_profile (AWS_REGION env) configured)
                     (JStr (take 50000 ?t))
                 # rest"
      unfolding eq
      by (cases "extractRecipeFromText env (JStr (take 50000 ?t))")
        (auto split: sum.splits)
  qed
qed

lemma extract_long_page: "extractTextFromHtml long_page = long_page"
  by (rule extractTextFromHtml_plain) (simp add: long_page_def is_space_def)

lemma extract_salade_any:
  "t \<noteq> [] \<Longrightarrow>
   extractRecipe (test_env (claude_body salade_json) s p) (JStr t)
     = ([InvokeModel (js ''anthropic.claude-3-sonnet-20240229-v1:0'') (JStr t)], Inr salade_recipe)"
proof -
  assume ne: "t \<noteq> []"
  have f: "find_textContent (claude_response salade_json)
             = Inr (JObj [(js ''type'', JStr (js ''text'')), (js ''text'', JStr salade_json)])"
    by (simp add: find_textContent_def claude_response_def get_prop_def js_def)
  have n: "salade_json \<noteq> []" by (simp add: salade_json_def js_def)
  have "extractRecipe_try (test_env (claude_body salade_json) s p) m x = Inr salade_recipe" for m x
    using defaults_salade [of "claude_body salade_json" s p]
    by (simp add: extractRecipe_try_def and_then_def f get_prop_def n
        test_env_def parse_claude_salade parse_salade js_def)
  then show ?thesis
    using model_id ne
    by (simp add: extractRecipe_def test_env_def)
qed

theorem length_limit_asymmetry_witness:
  "length long_page > 50000
   \<and> handleTextExtraction (test_env (claude_body salade_json) api_down long_page) (JStr long_page)
       = ([], Inr (errorResponse (js ''Recipe text too long (max 50000 characters)'') 400 []))
   \<and> isValidUrl (test_env (claude_body salade_json) api_down long_page) salade_url
   \<and> fetchWebpage (test_env (claude_body salade_json) api_down long_page) salade_url = Inr long_page
   \<and> length (extractTextFromHtml long_page) > 50000
   \<and> fst (handleUrlExtraction (test_env (claude_body salade_json) api_down long_page) salade_url)
       = [FetchWebpage salade_url,
          InvokeModel (js ''anthropic.claude-3-sonnet-20240229-v1:0'') (JStr (replicate 50000 97)),
          SendRecipe salade_recipe]
   \<and> statusCode (projr (snd (handleUrlExtraction
         (test_env (claude_body salade_json) api_down long_page) salade_url))) = 200"
proof -
  let ?env = "test_env (claude_body salade_json) api_down long_page"
  have l: "length long_page > 50000" by (simp add: long_page_def)
  have v: "isValidUrl ?env salade_url"
    by (simp add: isValidUrl_def test_env_def salade_url_def)
  have f: "fetchWebpage ?env salade_url = Inr long_page" by (simp add: test_env_def)
  have e: "length (extractTextFromHtml long_page) > 50000" by (simp add: extract_long_page l)
  have t: "take 50000 long_page = replicate 50000 97" by (simp add: long_page_def)
  have tr: "trim (replicate 50000 97) = replicate 50000 97"
    by (simp add: trim_strip strip_end_no_space is_space_def dropWhile_eq_self_iff)
  have nb: "\<not> blank_input (JStr (replicate 50000 97))"
    by (simp add: tr)
  have x: "extractRecipeFromText ?env (JStr (replicate 50000 97))
             = ([InvokeModel (js ''anthropic.claude-3-sonnet-20240229-v1:0'') (JStr (replicate 50000 97)),
                 SendRecipe salade_recipe],
                Inr (JObj [(js ''recipe'', salade_recipe),
                           (js ''apiResponse'',
                              JObj [(js ''error'', JStr (js ''API returned error status 500: {}'')),
                                    (js ''sent'', JBool False)]),
                           (js ''metadata'',
                              JObj [(js ''extractedAt'', JStr (js ''2026-01-16T10:30:00.000Z'')),
                                    (js ''modelUsed'', JStr (js ''anthropic.claude-3-sonnet-20240229-v1:0''))])]))"
    using nb extract_salade_any [of "replicate 50000 97" api_down long_page] validate_salade
    by (simp add: extractRecipeFromText_def) (simp add: test_env_def api_down_def)
  from length_limit_asymmetry [of long_page ?env salade_url long_page] l v f e
  show ?thesis
    by (simp add: extract_long_page t x successResponse_def)
qed

end
